theory Spec2Isabelle
  imports Main "HOL-Library.Sublist"
begin

section \<open>Python values and built-in operations used by the notebook\<close>

text \<open>
  The program is the notebook \<^verbatim>\<open>examples/named_entity_recognition/ner_wikigold_transformer.ipynb\<close>:
  a script of library calls. An exception is a value: \<open>IndexError\<close>, \<open>ValueError\<close> and
  \<open>NameError\<close> are the built-in errors the notebook's own expressions can raise (indexing,
  \<^verbatim>\<open>float(...)\<close>, tuple unpacking, \<^verbatim>\<open>random.sample\<close>, an unbound variable); \<open>Raised x\<close> is
  whatever exception \<open>x\<close> a called library raises.
\<close>

datatype 'x exn = IndexError | ValueError | NameError | Raised 'x

text \<open>
  A number literal of the source: \<open>Integer i\<close> is the Python int \<open>i\<close>, \<open>Decimal m k\<close> is the
  float literal whose decimal text denotes \<open>m / 10 ^ k\<close> (\<^verbatim>\<open>0.3\<close> is \<open>Decimal 3 1\<close>,
  \<^verbatim>\<open>5e-5\<close> is \<open>Decimal 5 5\<close>). Arithmetic on floats is left to the Python runtime
  (a parameter of the model, see \<open>env\<close>).
\<close>

datatype number = Integer int | Decimal int nat

type_synonym sentences = "string list list"

text \<open>
  \<^verbatim>\<open>c.isspace()\<close> for the code points below 256 (a \<open>char\<close> is one such code point).
\<close>

definition is_space :: "char \<Rightarrow> bool" where
  "is_space c \<longleftrightarrow>
     c \<in> set [CHR 0x09, CHR 0x0A, CHR 0x0B, CHR 0x0C, CHR 0x0D, CHR 0x1C, CHR 0x1D,
              CHR 0x1E, CHR 0x1F, CHR 0x20, CHR 0x85, CHR 0xA0]"

text \<open>
  \<^verbatim>\<open>s.split()\<close>: the maximal runs of non-whitespace characters, in order; \<open>w\<close> is the
  run being read.
\<close>

fun split_ws :: "string \<Rightarrow> string \<Rightarrow> string list" where
  "split_ws w [] = (if w = [] then [] else [w])"
| "split_ws w (c # cs) =
     (if is_space c then (if w = [] then split_ws [] cs else w # split_ws [] cs)
      else split_ws (w @ [c]) cs)"

definition str_split :: "string \<Rightarrow> string list" where
  "str_split s = split_ws [] s"

text \<open>
  \<^verbatim>\<open>s.split(sep)\<close> for a one-character separator: the pieces between separators, empty
  pieces included, so the result is never empty.
\<close>

fun split_sep :: "char \<Rightarrow> string \<Rightarrow> string \<Rightarrow> string list" where
  "split_sep sep w [] = [w]"
| "split_sep sep w (c # cs) =
     (if c = sep then w # split_sep sep [] cs else split_sep sep (w @ [c]) cs)"

definition str_split_sep :: "string \<Rightarrow> char \<Rightarrow> string list" where
  "str_split_sep s sep = split_sep sep [] s"

text \<open>\<^verbatim>\<open>xs[i]\<close>, for \<open>i\<close> from \<open>-len(xs)\<close> to \<open>len(xs) - 1\<close>; any other index raises IndexError.\<close>

definition getitem :: "'a list \<Rightarrow> int \<Rightarrow> 'x exn + 'a" where
  "getitem xs i =
     (if 0 \<le> i \<and> i < int (length xs) then Inr (xs ! nat i)
      else if i < 0 \<and> - int (length xs) \<le> i then Inr (xs ! nat (int (length xs) + i))
      else Inl IndexError)"

text \<open>
  \<^verbatim>\<open>os.path.join(a, b)\<close> on POSIX: an absolute \<open>b\<close> replaces \<open>a\<close>; otherwise the two are
  joined by one slash unless \<open>a\<close> is empty or already ends with one.
\<close>

definition path_join :: "string \<Rightarrow> string \<Rightarrow> string" where
  "path_join a b =
     (if b \<noteq> [] \<and> hd b = CHR ''/'' then b
      else if a = [] \<or> last a = CHR ''/'' then a @ b
      else a @ ''/'' @ b)"


section \<open>The libraries and the Python runtime\<close>

text \<open>
  Every call of the notebook goes to code outside it: \<^verbatim>\<open>tempfile\<close>, \<^verbatim>\<open>random\<close>, \<^verbatim>\<open>torch\<close>,
  \<^verbatim>\<open>sklearn\<close>, \<^verbatim>\<open>pandas\<close>, \<^verbatim>\<open>seqeval\<close>, \<^verbatim>\<open>scrapbook\<close> and the \<^verbatim>\<open>utils_nlp\<close> package. None of
  it is part of the notebook, so the model takes it as a parameter: a record \<open>env\<close> with one field
  per function, named as the source names it. The objects these functions produce are opaque
  (type variables): \<open>'p\<close> the processor, \<open>'m\<close> the label map, \<open>'d\<close> a dataset, \<open>'l\<close> a data loader,
  \<open>'c\<close> the classifier, \<open>'r\<close> raw predictions, \<open>'t\<close> a timer, \<open>'v\<close> a data frame, \<open>'f\<close> a float,
  \<open>'x\<close> a library exception.

  A function that can raise returns \<open>'x + result\<close>. A function that works on the file system
  takes and returns the world \<open>'w\<close>; \<^verbatim>\<open>random\<close> works on the state \<open>'g\<close> of Python's global random
  generator; \<^verbatim>\<open>fit\<close> changes the classifier in place and so returns it, also when it raises.

  \<^item> \<open>float_of_string s\<close> is \<^verbatim>\<open>float(s)\<close>, \<open>None\<close> where Python raises ValueError;
  \<^item> \<open>float_times_len m k n\<close> is \<^verbatim>\<open>int(x * n)\<close> for the float literal \<open>x = Decimal m k\<close>;
  \<^item> \<open>random_choose g n k\<close> gives the positions \<^verbatim>\<open>random.sample\<close> selects from a population
    of \<open>n\<close> elements when \<open>0 \<le> k \<le> n\<close>, and the generator's next state;
  \<^item> \<open>len_label_map\<close> is \<^verbatim>\<open>len(label_map)\<close>;
  \<^item> \<open>Timer_enter\<close>, \<open>Timer_exit\<close> are the \<^verbatim>\<open>__enter__\<close> and \<^verbatim>\<open>__exit__\<close> of \<^verbatim>\<open>Timer\<close>, which a
    \<^verbatim>\<open>with\<close> statement calls; \<open>Timer_exit t b\<close> is told whether an exception is in flight (\<open>b\<close>)
    and answers whether to suppress it; \<open>Timer_interval\<close> reads \<^verbatim>\<open>t.interval\<close>.
\<close>

record ('x, 'w, 'g, 'f, 'p, 'm, 'd, 'l, 'c, 'r, 't, 'v) env =
  float_of_string :: "string \<Rightarrow> 'f option"
  float_times_len :: "int \<Rightarrow> nat \<Rightarrow> nat \<Rightarrow> int"
  TemporaryDirectory :: "'w \<Rightarrow> ('x + string) \<times> 'w"
  random_seed :: "int \<Rightarrow> 'g"
  random_choose :: "'g \<Rightarrow> nat \<Rightarrow> nat \<Rightarrow> nat list \<times> 'g"
  torch_manual_seed :: "int \<Rightarrow> 'x + unit"
  train_test_split ::
    "sentences \<Rightarrow> sentences \<Rightarrow> number \<Rightarrow> int \<Rightarrow>
     'x + (sentences \<times> sentences \<times> sentences \<times> sentences)"
  DataFrame :: "(string \<times> string list) list \<Rightarrow> 'x + 'v"
  head :: "'v \<Rightarrow> int \<Rightarrow> 'x + 'v"
  classification_report :: "sentences \<Rightarrow> sentences \<Rightarrow> int \<Rightarrow> 'x + string"
  glue :: "string \<Rightarrow> 'f \<Rightarrow> 'x + unit"
  maybe_download :: "string \<Rightarrow> string \<Rightarrow> string \<Rightarrow> 'w \<Rightarrow> ('x + string) \<times> 'w"
  read_conll_file :: "string \<Rightarrow> string \<Rightarrow> 'w \<Rightarrow> ('x + sentences \<times> sentences) \<times> 'w"
  TokenClassificationProcessor :: "string \<Rightarrow> bool \<Rightarrow> string \<Rightarrow> 'x + 'p"
  create_label_map :: "sentences \<Rightarrow> string \<Rightarrow> 'x + 'm"
  len_label_map :: "'m \<Rightarrow> int"
  preprocess ::
    "'p \<Rightarrow> sentences \<Rightarrow> int \<Rightarrow> sentences option \<Rightarrow> 'm \<Rightarrow> string \<Rightarrow> 'x + 'd"
  dataloader_from_dataset :: "'d \<Rightarrow> int \<Rightarrow> int option \<Rightarrow> bool \<Rightarrow> bool \<Rightarrow> 'x + 'l"
  TokenClassifier :: "string \<Rightarrow> int \<Rightarrow> string \<Rightarrow> 'x + 'c"
  fit ::
    "'c \<Rightarrow> 'l \<Rightarrow> int \<Rightarrow> int option \<Rightarrow> int \<Rightarrow> number \<Rightarrow> number \<Rightarrow> number \<Rightarrow>
     int \<Rightarrow> bool \<Rightarrow> int \<Rightarrow> ('x + unit) \<times> 'c"
  predict :: "'c \<Rightarrow> 'l \<Rightarrow> int option \<Rightarrow> bool \<Rightarrow> 'x + 'r"
  get_true_test_labels :: "'c \<Rightarrow> 'm \<Rightarrow> 'd \<Rightarrow> 'x + sentences"
  get_predicted_token_labels :: "'c \<Rightarrow> 'r \<Rightarrow> 'm \<Rightarrow> 'd \<Rightarrow> 'x + sentences"
  Timer :: "'x + 't"
  Timer_enter :: "'t \<Rightarrow> 'x + 't"
  Timer_exit :: "'t \<Rightarrow> bool \<Rightarrow> 'x + bool \<times> 't"
  Timer_interval :: "'t \<Rightarrow> 'x + 'f"

section \<open>Runs of the notebook: state, trace of calls, exceptions\<close>

text \<open>
  What a run prints: the two timings, the classification report, and for the \<open>i\<close>-th example
  sentence its text and its table of tokens and predicted labels.
\<close>

datatype printed = Training_time | Prediction_time | Report | Example_text nat | Example_frame nat

text \<open>
  One constructor per function the notebook calls, with the arguments the properties below
  speak about: the loader given to \<^verbatim>\<open>fit\<close> and \<^verbatim>\<open>predict\<close>, the number of epochs and the seed,
  the texts and labels given to \<^verbatim>\<open>preprocess\<close>, the name and value given to \<^verbatim>\<open>sb.glue\<close>.
\<close>

datatype ('l, 'f) call =
    Call_TemporaryDirectory
  | Call_torch_manual_seed int
  | Call_maybe_download string string string
  | Call_read_conll_file string string
  | Call_random_seed int
  | Call_random_sample nat int
  | Call_train_test_split number int
  | Call_DataFrame
  | Call_head
  | Call_TokenClassificationProcessor
  | Call_create_label_map
  | Call_preprocess sentences "sentences option"
  | Call_dataloader_from_dataset bool
  | Call_TokenClassifier
  | Call_Timer
  | Call_Timer_enter
  | Call_Timer_exit
  | Call_Timer_interval
  | Call_fit 'l int int
  | Call_predict 'l
  | Call_get_true_test_labels
  | Call_get_predicted_token_labels
  | Call_classification_report
  | Call_print printed
  | Call_glue string 'f

datatype 'e outcome = Returned | Raise 'e

text \<open>
  The state of a run: the world, the global random generator, and the calls made so far, each
  with its outcome, in the order they were made.
\<close>

record ('w, 'g, 'ev) state =
  world :: 'w
  rng :: 'g
  calls :: "'ev list"

type_synonym ('w, 'g, 'l, 'f, 'x) nbstate = "('w, 'g, ('l, 'f) call \<times> 'x exn outcome) state"

type_synonym ('w, 'g, 'l, 'f, 'x, 'a) prog =
  "('w, 'g, 'l, 'f, 'x) nbstate \<Rightarrow> ('x exn + 'a) \<times> ('w, 'g, 'l, 'f, 'x) nbstate"

definition ret :: "'a \<Rightarrow> ('w, 'g, 'l, 'f, 'x, 'a) prog" where
  "ret a = (\<lambda>s. (Inr a, s))"

definition lift :: "'x exn + 'a \<Rightarrow> ('w, 'g, 'l, 'f, 'x, 'a) prog" where
  "lift r = (\<lambda>s. (r, s))"

text \<open>
  One statement after another: the second runs only if the first did not raise. The notebook
  has no \<^verbatim>\<open>try\<close>, so this and \<open>with_Timer\<close> below are the only ways two statements compose.
\<close>

definition seq ::
  "('w, 'g, 'l, 'f, 'x, 'a) prog \<Rightarrow> ('a \<Rightarrow> ('w, 'g, 'l, 'f, 'x, 'b) prog) \<Rightarrow>
   ('w, 'g, 'l, 'f, 'x, 'b) prog" where
  "seq m f = (\<lambda>s. case m s of (Inl e, s') \<Rightarrow> (Inl e, s') | (Inr a, s') \<Rightarrow> f a s')"

definition log ::
  "('l, 'f) call \<Rightarrow> 'x exn outcome \<Rightarrow> ('w, 'g, 'l, 'f, 'x) nbstate \<Rightarrow> ('w, 'g, 'l, 'f, 'x) nbstate" where
  "log c out s = s\<lparr>calls := calls s @ [(c, out)]\<rparr>"

text \<open>A call of a library function: it is recorded with its outcome, and its exception, if any, is raised.\<close>

definition call :: "('l, 'f) call \<Rightarrow> 'x + 'a \<Rightarrow> ('w, 'g, 'l, 'f, 'x, 'a) prog" where
  "call c res =
     (\<lambda>s. case res of
            Inl x \<Rightarrow> (Inl (Raised x), log c (Raise (Raised x)) s)
          | Inr a \<Rightarrow> (Inr a, log c Returned s))"

definition call_w ::
  "('l, 'f) call \<Rightarrow> ('w \<Rightarrow> ('x + 'a) \<times> 'w) \<Rightarrow> ('w, 'g, 'l, 'f, 'x, 'a) prog" where
  "call_w c f =
     (\<lambda>s. case f (world s) of
            (Inl x, w) \<Rightarrow> (Inl (Raised x), log c (Raise (Raised x)) (s\<lparr>world := w\<rparr>))
          | (Inr a, w) \<Rightarrow> (Inr a, log c Returned (s\<lparr>world := w\<rparr>)))"

text \<open>\<^verbatim>\<open>print(...)\<close>: a built-in that does not raise.\<close>

definition print :: "printed \<Rightarrow> ('w, 'g, 'l, 'f, 'x, unit) prog" where
  "print p = (\<lambda>s. (Inr (), log (Call_print p) Returned s))"

text \<open>\<^verbatim>\<open>random.seed(a)\<close> replaces the state of the global generator.\<close>

definition py_random_seed ::
  "('x, 'w, 'g, 'f, 'p, 'm, 'd, 'l, 'c, 'r, 't, 'v) env \<Rightarrow> int \<Rightarrow> ('w, 'g, 'l, 'f, 'x, unit) prog" where
  "py_random_seed E a = (\<lambda>s. (Inr (), log (Call_random_seed a) Returned (s\<lparr>rng := random_seed E a\<rparr>)))"

text \<open>
  \<^verbatim>\<open>random.sample(population, k)\<close>: ValueError unless \<open>0 \<le> k \<le> len(population)\<close>; otherwise
  the elements at the positions the generator selects, in that order.
\<close>

definition py_random_sample ::
  "('x, 'w, 'g, 'f, 'p, 'm, 'd, 'l, 'c, 'r, 't, 'v) env \<Rightarrow> 'a list \<Rightarrow> int \<Rightarrow>
   ('w, 'g, 'l, 'f, 'x, 'a list) prog" where
  "py_random_sample E population k =
     (\<lambda>s. let n = length population in
           if 0 \<le> k \<and> k \<le> int n
           then (case random_choose E (rng s) n (nat k) of
                   (idxs, g) \<Rightarrow>
                     (Inr (map (\<lambda>i. population ! i) idxs),
                      log (Call_random_sample n k) Returned (s\<lparr>rng := g\<rparr>)))
           else (Inl ValueError, log (Call_random_sample n k) (Raise ValueError) s))"

text \<open>
  \<^verbatim>\<open>with Timer() as t: body\<close>. The timer is made and entered, then the body runs. The exit
  is called whether or not the body raised. If the body raised and the exit answers true, the
  exception is suppressed and the statements after the \<^verbatim>\<open>with\<close> run, without the body's result
  (\<open>None\<close>); if the exit itself raises, that exception replaces the body's.
\<close>

definition with_Timer ::
  "('x, 'w, 'g, 'f, 'p, 'm, 'd, 'l, 'c, 'r, 't, 'v) env \<Rightarrow> ('w, 'g, 'l, 'f, 'x, 'a) prog \<Rightarrow>
   ('w, 'g, 'l, 'f, 'x, 'a option \<times> 't) prog" where
  "with_Timer E body =
     seq (call Call_Timer (Timer E)) (\<lambda>t0.
     seq (call Call_Timer_enter (Timer_enter E t0)) (\<lambda>t.
     (\<lambda>s. case body s of
            (Inr a, s') \<Rightarrow>
              seq (call Call_Timer_exit (Timer_exit E t False)) (\<lambda>(_, t'). ret (Some a, t')) s'
          | (Inl e, s') \<Rightarrow>
              seq (call Call_Timer_exit (Timer_exit E t True))
                (\<lambda>(suppress, t'). if suppress then ret (None, t') else lift (Inl e)) s')))"


text \<open>A name that is read: NameError if no statement has bound it.\<close>

definition lookup :: "'a option \<Rightarrow> 'x exn + 'a" where
  "lookup v = (case v of None \<Rightarrow> Inl NameError | Some a \<Rightarrow> Inr a)"

section \<open>The notebook, cell by cell\<close>

subsection \<open>Configuration\<close>

record config =
  DATA_URL :: string
  TEST_DATA_FRACTION :: number
  SAMPLE_RATIO :: number
  DATA_PATH :: string
  CACHE_DIR :: string
  RANDOM_SEED :: int
  NUM_TRAIN_EPOCHS :: int
  MODEL_NAME :: string
  DO_LOWER_CASE :: bool
  MAX_SEQ_LENGTH :: int
  TRAILING_PIECE_TAG :: string
  NUM_GPUS :: "int option"
  BATCH_SIZE :: int

text \<open>
  The cell \<^verbatim>\<open>QUICK_RUN = False\<close> and the parameters cell. \<open>QUICK_RUN\<close> is an argument, since
  the notebook asks its user to edit it. The assignments run in source order, then
  \<^verbatim>\<open>if QUICK_RUN:\<close> overwrites two of them.
\<close>

definition configure ::
  "('x, 'w, 'g, 'f, 'p, 'm, 'd, 'l, 'c, 'r, 't, 'v) env \<Rightarrow> bool \<Rightarrow>
   ('w, 'g, 'l, 'f, 'x, config) prog" where
  "configure E QUICK_RUN =
     seq (call_w Call_TemporaryDirectory (TemporaryDirectory E)) (\<lambda>data_path.
     seq (call_w Call_TemporaryDirectory (TemporaryDirectory E)) (\<lambda>cache_dir.
     seq (call (Call_torch_manual_seed 100) (torch_manual_seed E 100)) (\<lambda>_.
     let cfg = \<lparr>
           DATA_URL =
             ''https://raw.githubusercontent.com/juand-r/entity-recognition-datasets'' @
             ''/master/data/wikigold/CONLL-format/data/wikigold.conll.txt'',
           TEST_DATA_FRACTION = Decimal 3 1,
           SAMPLE_RATIO = Integer 1,
           DATA_PATH = data_path,
           CACHE_DIR = cache_dir,
           RANDOM_SEED = 100,
           NUM_TRAIN_EPOCHS = 5,
           MODEL_NAME = ''bert-base-cased'',
           DO_LOWER_CASE = False,
           MAX_SEQ_LENGTH = 200,
           TRAILING_PIECE_TAG = ''X'',
           NUM_GPUS = None,
           BATCH_SIZE = 16 \<rparr>
     in ret (if QUICK_RUN then cfg\<lparr>SAMPLE_RATIO := Decimal 1 1, NUM_TRAIN_EPOCHS := 1\<rparr>
             else cfg))))"

subsection \<open>Get training and testing dataset\<close>

text \<open>\<^verbatim>\<open>int(SAMPLE_RATIO * len(sentence_list))\<close>: exact for an int ratio, the runtime's for a float.\<close>

definition sample_size ::
  "('x, 'w, 'g, 'f, 'p, 'm, 'd, 'l, 'c, 'r, 't, 'v) env \<Rightarrow> number \<Rightarrow> nat \<Rightarrow> int" where
  "sample_size E ratio n =
     (case ratio of Integer i \<Rightarrow> i * int n | Decimal m k \<Rightarrow> float_times_len E m k n)"

text \<open>
  \<^verbatim>\<open>a, b = list(zip(*pairs))\<close>: the firsts and the seconds of the pairs. With no pair,
  \<^verbatim>\<open>zip()\<close> is empty and the unpacking into two names raises ValueError.
\<close>

definition unzip_pairs :: "('a \<times> 'b) list \<Rightarrow> 'x exn + 'a list \<times> 'b list" where
  "unzip_pairs ps = (if ps = [] then Inl ValueError else Inr (map fst ps, map snd ps))"

definition download_and_parse ::
  "('x, 'w, 'g, 'f, 'p, 'm, 'd, 'l, 'c, 'r, 't, 'v) env \<Rightarrow> config \<Rightarrow>
   ('w, 'g, 'l, 'f, 'x, sentences \<times> sentences) prog" where
  "download_and_parse E cfg =
     seq (lift (getitem (str_split_sep (DATA_URL cfg) CHR ''/'') (- 1))) (\<lambda>file_name.
     seq (call_w (Call_maybe_download (DATA_URL cfg) file_name (DATA_PATH cfg))
            (maybe_download E (DATA_URL cfg) file_name (DATA_PATH cfg))) (\<lambda>_.
     let data_file = path_join (DATA_PATH cfg) file_name in
     call_w (Call_read_conll_file data_file '' '') (read_conll_file E data_file '' '')))"

definition sub_sample ::
  "('x, 'w, 'g, 'f, 'p, 'm, 'd, 'l, 'c, 'r, 't, 'v) env \<Rightarrow> config \<Rightarrow> sentences \<Rightarrow> sentences \<Rightarrow>
   ('w, 'g, 'l, 'f, 'x, sentences \<times> sentences) prog" where
  "sub_sample E cfg sentence_list labels_list =
     seq (py_random_seed E (RANDOM_SEED cfg)) (\<lambda>_.
     let k = sample_size E (SAMPLE_RATIO cfg) (length sentence_list) in
     seq (py_random_sample E (zip sentence_list labels_list) k) (\<lambda>sampled.
     lift (unzip_pairs sampled)))"

definition split_train_test ::
  "('x, 'w, 'g, 'f, 'p, 'm, 'd, 'l, 'c, 'r, 't, 'v) env \<Rightarrow> config \<Rightarrow> sentences \<Rightarrow> sentences \<Rightarrow>
   ('w, 'g, 'l, 'f, 'x, sentences \<times> sentences \<times> sentences \<times> sentences) prog" where
  "split_train_test E cfg sentence_list labels_list =
     call (Call_train_test_split (TEST_DATA_FRACTION cfg) (RANDOM_SEED cfg))
       (train_test_split E sentence_list labels_list (TEST_DATA_FRACTION cfg) (RANDOM_SEED cfg))"

text \<open>
  The sub-sampling followed by the split: the part of the cell that runs once the file is
  parsed. It returns the names it binds: \<open>sentence_list\<close> and \<open>labels_list\<close> (rebound by the
  sub-sampling) and the four lists of the split.
\<close>

definition sample_and_split ::
  "('x, 'w, 'g, 'f, 'p, 'm, 'd, 'l, 'c, 'r, 't, 'v) env \<Rightarrow> config \<Rightarrow> sentences \<Rightarrow> sentences \<Rightarrow>
   ('w, 'g, 'l, 'f, 'x,
    sentences \<times> sentences \<times> sentences \<times> sentences \<times> sentences \<times> sentences) prog" where
  "sample_and_split E cfg parsed_sentences parsed_labels =
     seq (sub_sample E cfg parsed_sentences parsed_labels) (\<lambda>(sentence_list, labels_list).
     seq (split_train_test E cfg sentence_list labels_list)
       (\<lambda>(train_sentence_list, test_sentence_list, train_labels_list, test_labels_list).
     ret (sentence_list, labels_list,
          train_sentence_list, test_sentence_list, train_labels_list, test_labels_list)))"

text \<open>The whole cell.\<close>

definition get_dataset ::
  "('x, 'w, 'g, 'f, 'p, 'm, 'd, 'l, 'c, 'r, 't, 'v) env \<Rightarrow> config \<Rightarrow>
   ('w, 'g, 'l, 'f, 'x,
    sentences \<times> sentences \<times> sentences \<times> sentences \<times> sentences \<times> sentences) prog" where
  "get_dataset E cfg =
     seq (download_and_parse E cfg) (\<lambda>(parsed_sentences, parsed_labels).
     sample_and_split E cfg parsed_sentences parsed_labels)"

text \<open>The cell that displays the first training sentence with its labels.\<close>

definition show_example ::
  "('x, 'w, 'g, 'f, 'p, 'm, 'd, 'l, 'c, 'r, 't, 'v) env \<Rightarrow> sentences \<Rightarrow> sentences \<Rightarrow>
   ('w, 'g, 'l, 'f, 'x, 'v) prog" where
  "show_example E train_sentence_list train_labels_list =
     seq (lift (getitem train_sentence_list 0)) (\<lambda>tokens.
     seq (lift (getitem train_labels_list 0)) (\<lambda>labels.
     seq (call Call_DataFrame (DataFrame E [(''token'', tokens), (''label'', labels)])) (\<lambda>df.
     call Call_head (head E df 11))))"

subsection \<open>Create PyTorch datasets and dataloaders\<close>

definition create_datasets ::
  "('x, 'w, 'g, 'f, 'p, 'm, 'd, 'l, 'c, 'r, 't, 'v) env \<Rightarrow> config \<Rightarrow> sentences \<Rightarrow>
   sentences \<Rightarrow> sentences \<Rightarrow> sentences \<Rightarrow> sentences \<Rightarrow>
   ('w, 'g, 'l, 'f, 'x, 'p \<times> 'm \<times> 'd \<times> 'l \<times> 'd \<times> 'l) prog" where
  "create_datasets E cfg labels_list train_sentence_list train_labels_list
       test_sentence_list test_labels_list =
     seq (call Call_TokenClassificationProcessor
            (TokenClassificationProcessor E (MODEL_NAME cfg) (DO_LOWER_CASE cfg) (CACHE_DIR cfg)))
       (\<lambda>processor.
     seq (call Call_create_label_map (create_label_map E labels_list (TRAILING_PIECE_TAG cfg)))
       (\<lambda>label_map.
     seq (call (Call_preprocess train_sentence_list (Some train_labels_list))
            (preprocess E processor train_sentence_list (MAX_SEQ_LENGTH cfg)
               (Some train_labels_list) label_map (TRAILING_PIECE_TAG cfg)))
       (\<lambda>train_dataset.
     seq (call (Call_dataloader_from_dataset True)
            (dataloader_from_dataset E train_dataset (BATCH_SIZE cfg) (NUM_GPUS cfg) True False))
       (\<lambda>train_dataloader.
     seq (call (Call_preprocess test_sentence_list (Some test_labels_list))
            (preprocess E processor test_sentence_list (MAX_SEQ_LENGTH cfg)
               (Some test_labels_list) label_map (TRAILING_PIECE_TAG cfg)))
       (\<lambda>test_dataset.
     seq (call (Call_dataloader_from_dataset False)
            (dataloader_from_dataset E test_dataset (BATCH_SIZE cfg) (NUM_GPUS cfg) False False))
       (\<lambda>test_dataloader.
     ret (processor, label_map, train_dataset, train_dataloader,
          test_dataset, test_dataloader)))))))"

subsection \<open>Train model\<close>

text \<open>
  \<open>fit\<close> changes the classifier in place: \<open>model'\<close> is the classifier after the call, which
  the later cells use; \<open>fitted\<close> is what the call returned or raised, inside the \<^verbatim>\<open>with\<close>.
\<close>

definition train_model ::
  "('x, 'w, 'g, 'f, 'p, 'm, 'd, 'l, 'c, 'r, 't, 'v) env \<Rightarrow> config \<Rightarrow> 'm \<Rightarrow> 'l \<Rightarrow>
   ('w, 'g, 'l, 'f, 'x, 'c) prog" where
  "train_model E cfg label_map train_dataloader =
     seq (call Call_TokenClassifier
            (TokenClassifier E (MODEL_NAME cfg) (len_label_map E label_map) (CACHE_DIR cfg)))
       (\<lambda>model.
     case fit E model train_dataloader (NUM_TRAIN_EPOCHS cfg) (NUM_GPUS cfg) (- 1)
            (Decimal 0 1) (Decimal 5 5) (Decimal 1 8) 0 False (RANDOM_SEED cfg) of
       (fitted, model') \<Rightarrow>
     seq (with_Timer E
            (call (Call_fit train_dataloader (NUM_TRAIN_EPOCHS cfg) (RANDOM_SEED cfg)) fitted))
       (\<lambda>(_, t).
     seq (call Call_Timer_interval (Timer_interval E t)) (\<lambda>interval.
     seq (print Training_time) (\<lambda>_.
     ret model'))))"

subsection \<open>Evaluate on testing dataset\<close>

text \<open>The result is \<open>preds\<close>, unbound (\<open>None\<close>) if the timer suppressed an exception of \<open>predict\<close>.\<close>

definition score_test ::
  "('x, 'w, 'g, 'f, 'p, 'm, 'd, 'l, 'c, 'r, 't, 'v) env \<Rightarrow> 'c \<Rightarrow> 'l \<Rightarrow>
   ('w, 'g, 'l, 'f, 'x, 'r option) prog" where
  "score_test E model test_dataloader =
     seq (with_Timer E
            (call (Call_predict test_dataloader) (predict E model test_dataloader None True)))
       (\<lambda>(preds, t).
     seq (call Call_Timer_interval (Timer_interval E t)) (\<lambda>interval.
     seq (print Prediction_time) (\<lambda>_.
     ret preds)))"

text \<open>The two cells that get the true and the predicted labels and print the report.\<close>

definition evaluate ::
  "('x, 'w, 'g, 'f, 'p, 'm, 'd, 'l, 'c, 'r, 't, 'v) env \<Rightarrow> 'c \<Rightarrow> 'm \<Rightarrow> 'd \<Rightarrow> 'r option \<Rightarrow>
   ('w, 'g, 'l, 'f, 'x, sentences \<times> string) prog" where
  "evaluate E model label_map test_dataset preds =
     seq (call Call_get_true_test_labels (get_true_test_labels E model label_map test_dataset))
       (\<lambda>true_labels.
     seq (lift (lookup preds)) (\<lambda>predictions.
     seq (call Call_get_predicted_token_labels
            (get_predicted_token_labels E model predictions label_map test_dataset))
       (\<lambda>predicted_labels.
     seq (call Call_classification_report
            (classification_report E true_labels predicted_labels 2))
       (\<lambda>report.
     seq (print Report) (\<lambda>_.
     ret (true_labels, report))))))"

subsection \<open>Score example sentences\<close>

definition sample_text :: "string list" where
  "sample_text = [''Is it true that Jane works at Microsoft?'', ''Joe now lives in Copenhagen.'']"

text \<open>The loop \<^verbatim>\<open>for i in range(len(sample_text))\<close>, over the list of its indices.\<close>

fun print_examples ::
  "('x, 'w, 'g, 'f, 'p, 'm, 'd, 'l, 'c, 'r, 't, 'v) env \<Rightarrow> string list \<Rightarrow> sentences \<Rightarrow>
   sentences \<Rightarrow> nat list \<Rightarrow> ('w, 'g, 'l, 'f, 'x, unit) prog" where
  "print_examples E text tokens labels [] = ret ()"
| "print_examples E text tokens labels (i # rest) =
     seq (lift (getitem text (int i))) (\<lambda>line.
     seq (print (Example_text i)) (\<lambda>_.
     seq (lift (getitem tokens (int i))) (\<lambda>toks.
     seq (lift (getitem labels (int i))) (\<lambda>labs.
     seq (call Call_DataFrame (DataFrame E [(''tokens'', toks), (''labels'', labs)])) (\<lambda>df.
     seq (print (Example_frame i)) (\<lambda>_.
     print_examples E text tokens labels rest))))))"

definition score_examples ::
  "('x, 'w, 'g, 'f, 'p, 'm, 'd, 'l, 'c, 'r, 't, 'v) env \<Rightarrow> config \<Rightarrow> 'p \<Rightarrow> 'm \<Rightarrow> 'c \<Rightarrow>
   ('w, 'g, 'l, 'f, 'x, 'l \<times> 'r \<times> sentences) prog" where
  "score_examples E cfg processor label_map model =
     (let sample_tokens = map str_split sample_text in
     seq (call (Call_preprocess sample_tokens None)
            (preprocess E processor sample_tokens (MAX_SEQ_LENGTH cfg) None label_map
               (TRAILING_PIECE_TAG cfg)))
       (\<lambda>sample_dataset.
     seq (call (Call_dataloader_from_dataset False)
            (dataloader_from_dataset E sample_dataset (BATCH_SIZE cfg) None False False))
       (\<lambda>sample_dataloader.
     seq (call (Call_predict sample_dataloader) (predict E model sample_dataloader None True))
       (\<lambda>preds.
     seq (call Call_get_predicted_token_labels
            (get_predicted_token_labels E model preds label_map sample_dataset))
       (\<lambda>predicted_labels.
     seq (print_examples E sample_text sample_tokens predicted_labels
            [0..<length sample_text])
       (\<lambda>_.
     ret (sample_dataloader, preds, predicted_labels)))))))"

subsection \<open>For testing: the metrics recorded with scrapbook\<close>

definition to_float ::
  "('x, 'w, 'g, 'f, 'p, 'm, 'd, 'l, 'c, 'r, 't, 'v) env \<Rightarrow> string \<Rightarrow> 'x exn + 'f" where
  "to_float E s = (case float_of_string E s of None \<Rightarrow> Inl ValueError | Some x \<Rightarrow> Inr x)"

definition record_metrics ::
  "('x, 'w, 'g, 'f, 'p, 'm, 'd, 'l, 'c, 'r, 't, 'v) env \<Rightarrow> string \<Rightarrow>
   ('w, 'g, 'l, 'f, 'x, unit) prog" where
  "record_metrics E report =
     seq (lift (getitem (str_split_sep report CHR 0x0A) (- 2))) (\<lambda>line.
     let report_splits = str_split line in
     seq (lift (getitem report_splits 2)) (\<lambda>field2.
     seq (lift (to_float E field2)) (\<lambda>precision.
     seq (call (Call_glue ''precision'' precision) (glue E ''precision'' precision)) (\<lambda>_.
     seq (lift (getitem report_splits 3)) (\<lambda>field3.
     seq (lift (to_float E field3)) (\<lambda>recall.
     seq (call (Call_glue ''recall'' recall) (glue E ''recall'' recall)) (\<lambda>_.
     seq (lift (getitem report_splits 4)) (\<lambda>field4.
     seq (lift (to_float E field4)) (\<lambda>f1.
     call (Call_glue ''f1'' f1) (glue E ''f1'' f1))))))))))"

subsection \<open>The whole notebook\<close>

text \<open>The names bound when the last cell has run, with the values they then have.\<close>

record ('p, 'm, 'd, 'l, 'c, 'r) namespace =
  cfg :: config
  sentence_list :: sentences
  labels_list :: sentences
  train_sentence_list :: sentences
  test_sentence_list :: sentences
  train_labels_list :: sentences
  test_labels_list :: sentences
  processor :: 'p
  label_map :: 'm
  train_dataset :: 'd
  train_dataloader :: 'l
  test_dataset :: 'd
  test_dataloader :: 'l
  model :: 'c
  true_labels :: sentences
  report :: string
  sample_dataloader :: 'l
  preds :: 'r
  predicted_labels :: sentences

text \<open>
  The cells after the configuration up to the preprocessing: the data cell, the cell that
  displays an example, and the cell that makes the datasets and the loaders.
\<close>

definition load_and_preprocess ::
  "('x, 'w, 'g, 'f, 'p, 'm, 'd, 'l, 'c, 'r, 't, 'v) env \<Rightarrow> config \<Rightarrow>
   ('w, 'g, 'l, 'f, 'x,
    sentences \<times> sentences \<times> sentences \<times> sentences \<times> sentences \<times> sentences \<times>
    'p \<times> 'm \<times> 'd \<times> 'l \<times> 'd \<times> 'l) prog" where
  "load_and_preprocess E c =
     seq (get_dataset E c) (\<lambda>(sl, ll, train_sl, test_sl, train_ll, test_ll).
     seq (show_example E train_sl train_ll) (\<lambda>_.
     seq (create_datasets E c ll train_sl train_ll test_sl test_ll) (\<lambda>datasets.
     ret (sl, ll, train_sl, test_sl, train_ll, test_ll, datasets))))"

text \<open>
  The cells after the configuration, in the order of the file, each run after the one before
  it returned (\<^verbatim>\<open>Run All\<close>, or papermill): a cell that raises ends the run.
\<close>

definition pipeline ::
  "('x, 'w, 'g, 'f, 'p, 'm, 'd, 'l, 'c, 'r, 't, 'v) env \<Rightarrow> config \<Rightarrow>
   ('w, 'g, 'l, 'f, 'x, ('p, 'm, 'd, 'l, 'c, 'r) namespace) prog" where
  "pipeline E c =
     seq (load_and_preprocess E c)
       (\<lambda>(sl, ll, train_sl, test_sl, train_ll, test_ll,
          pr, lm, train_ds, train_dl, test_ds, test_dl).
     seq (train_model E c lm train_dl) (\<lambda>mdl.
     seq (score_test E mdl test_dl) (\<lambda>test_preds.
     seq (evaluate E mdl lm test_ds test_preds) (\<lambda>(tl, rep).
     seq (score_examples E c pr lm mdl) (\<lambda>(sample_dl, sample_preds, sample_labels).
     seq (record_metrics E rep) (\<lambda>_.
     ret \<lparr> cfg = c, sentence_list = sl, labels_list = ll,
           train_sentence_list = train_sl, test_sentence_list = test_sl,
           train_labels_list = train_ll, test_labels_list = test_ll,
           processor = pr, label_map = lm,
           train_dataset = train_ds, train_dataloader = train_dl,
           test_dataset = test_ds, test_dataloader = test_dl,
           model = mdl, true_labels = tl, report = rep,
           sample_dataloader = sample_dl, preds = sample_preds,
           predicted_labels = sample_labels \<rparr>))))))"

text \<open>The whole notebook, from the configuration on.\<close>

definition notebook ::
  "('x, 'w, 'g, 'f, 'p, 'm, 'd, 'l, 'c, 'r, 't, 'v) env \<Rightarrow> bool \<Rightarrow>
   ('w, 'g, 'l, 'f, 'x, ('p, 'm, 'd, 'l, 'c, 'r) namespace) prog" where
  "notebook E QUICK_RUN = seq (configure E QUICK_RUN) (pipeline E)"

section \<open>What the trace of a run shows\<close>

text \<open>
  The stages of the pipeline, in the order the specification lists them, and the stage a call
  belongs to. The calls the list does not name (the random generator, the processor and the
  label map, the timers, the label extraction, the timing and report prints, the scrapbook)
  have no stage.
\<close>

datatype stage =
    Configuration | Download | Parse | Split | Datasets | Loaders | Model
  | Fitting | Prediction | Metrics | Examples

fun stage_index :: "stage \<Rightarrow> nat" where
  "stage_index Configuration = 0"
| "stage_index Download = 1"
| "stage_index Parse = 2"
| "stage_index Split = 3"
| "stage_index Datasets = 4"
| "stage_index Loaders = 5"
| "stage_index Model = 6"
| "stage_index Fitting = 7"
| "stage_index Prediction = 8"
| "stage_index Metrics = 9"
| "stage_index Examples = 10"

fun stage_of :: "('l, 'f) call \<Rightarrow> stage option" where
  "stage_of Call_TemporaryDirectory = Some Configuration"
| "stage_of (Call_torch_manual_seed a) = Some Configuration"
| "stage_of (Call_maybe_download url name dir) = Some Download"
| "stage_of (Call_read_conll_file path sep) = Some Parse"
| "stage_of (Call_train_test_split frac seed) = Some Split"
| "stage_of (Call_preprocess text labels) = Some Datasets"
| "stage_of (Call_dataloader_from_dataset shuffle) = Some Loaders"
| "stage_of Call_TokenClassifier = Some Model"
| "stage_of (Call_fit l n seed) = Some Fitting"
| "stage_of (Call_predict l) = Some Prediction"
| "stage_of Call_classification_report = Some Metrics"
| "stage_of (Call_print (Example_text i)) = Some Examples"
| "stage_of (Call_print (Example_frame i)) = Some Examples"
| "stage_of c = None"

text \<open>The projections of a trace: what it shows of the calls made, in order.\<close>

definition proj :: "('c \<Rightarrow> 'b option) \<Rightarrow> ('c \<times> 'o) list \<Rightarrow> 'b list" where
  "proj p evs = List.map_filter p (map fst evs)"

definition stages :: "(('l, 'f) call \<times> 'o) list \<Rightarrow> stage list" where
  "stages evs = proj stage_of evs"

fun fit_call :: "('l, 'f) call \<Rightarrow> 'l option" where
  "fit_call (Call_fit l n seed) = Some l"
| "fit_call c = None"

fun epochs_call :: "('l, 'f) call \<Rightarrow> int option" where
  "epochs_call (Call_fit l n seed) = Some n"
| "epochs_call c = None"

fun predict_call :: "('l, 'f) call \<Rightarrow> 'l option" where
  "predict_call (Call_predict l) = Some l"
| "predict_call c = None"

fun glue_call :: "('l, 'f) call \<Rightarrow> (string \<times> 'f) option" where
  "glue_call (Call_glue name v) = Some (name, v)"
| "glue_call c = None"

text \<open>The number of epochs of each \<open>fit\<close> that was called.\<close>

definition fit_epochs :: "(('l, 'f) call \<times> 'o) list \<Rightarrow> int list" where
  "fit_epochs evs = proj epochs_call evs"

text \<open>The metrics recorded: the name and value of each \<^verbatim>\<open>sb.glue\<close> that returned.\<close>

definition glued :: "(('l, 'f) call \<times> 'e outcome) list \<Rightarrow> (string \<times> 'f) list" where
  "glued evs = proj glue_call (filter (\<lambda>ev. snd ev = Returned) evs)"

text \<open>The stages of the calls of a run that completes, in the order the source makes them.\<close>

definition notebook_stages :: "stage list" where
  "notebook_stages =
     [Configuration, Configuration, Configuration, Download, Parse, Split,
      Datasets, Loaders, Datasets, Loaders, Model, Fitting, Prediction, Metrics,
      Datasets, Loaders, Prediction, Examples, Examples, Examples, Examples]"

text \<open>
  The format the last cell expects of the report, in the words of the claims about it.
  \<open>report_fields\<close>: the whitespace-separated fields of the second-to-last newline-separated
  line, if there is one. \<open>well_shaped\<close>: that line has at least five fields, and fields 2, 3
  and 4 (counted from 0) parse as floats. \<open>parsed_metrics\<close>: the metrics, in the order
  precision, recall, f1, up to the first whose field is missing or does not parse.
\<close>

definition report_fields :: "string \<Rightarrow> string list option" where
  "report_fields rep =
     (let lines = str_split_sep rep CHR 0x0A
      in if length lines < 2 then None else Some (str_split (lines ! (length lines - 2))))"

definition well_shaped ::
  "('x, 'w, 'g, 'f, 'p, 'm, 'd, 'l, 'c, 'r, 't, 'v) env \<Rightarrow> string \<Rightarrow> bool" where
  "well_shaped E rep \<longleftrightarrow>
     (case report_fields rep of
        None \<Rightarrow> False
      | Some cols \<Rightarrow>
          5 \<le> length cols \<and> float_of_string E (cols ! 2) \<noteq> None \<and>
          float_of_string E (cols ! 3) \<noteq> None \<and> float_of_string E (cols ! 4) \<noteq> None)"

definition metric_fields :: "(string \<times> nat) list" where
  "metric_fields = [(''precision'', 2), (''recall'', 3), (''f1'', 4)]"

definition parsed_metrics ::
  "('x, 'w, 'g, 'f, 'p, 'm, 'd, 'l, 'c, 'r, 't, 'v) env \<Rightarrow> string \<Rightarrow> (string \<times> 'f) list" where
  "parsed_metrics E rep =
     (case report_fields rep of
        None \<Rightarrow> []
      | Some cols \<Rightarrow>
          map (\<lambda>(name, i). (name, the (float_of_string E (cols ! i))))
            (takeWhile (\<lambda>(name, i). i < length cols \<and> float_of_string E (cols ! i) \<noteq> None)
               metric_fields))"

text \<open>
  \<open>ends_with_row rep row\<close>: the report ends with the line \<open>row\<close> and a newline after it, so
  \<open>row\<close> is the last row of a report whose rows each end with a newline.
\<close>

definition ends_with_row :: "string \<Rightarrow> string \<Rightarrow> bool" where
  "ends_with_row rep row \<longleftrightarrow>
     CHR 0x0A \<notin> set row \<and>
     (rep = row @ [CHR 0x0A] \<or> suffix (CHR 0x0A # row @ [CHR 0x0A]) rep)"

section \<open>A stub library, to run the notebook on concrete inputs\<close>

text \<open>
  The report is the one the notebook's saved output shows; the parsed file has twenty short
  sentences; the split puts the first three tenths, rounded up, in the test part. A dataset and
  a loader are the texts and labels they were made from, the classifier is the number of epochs
  it was trained for, and it predicts \<open>O\<close> for every token.
\<close>

definition demo_report :: string where
  "demo_report = concat (map (\<lambda>l. l @ [CHR 0x0A])
     [''           precision    recall  f1-score   support'',
      [],
      ''     MISC       0.68      0.67      0.68       221'',
      ''      LOC       0.79      0.85      0.82       317'',
      ''      ORG       0.73      0.81      0.76       274'',
      ''      PER       0.92      0.93      0.92       257'',
      [],
      ''micro avg       0.78      0.82      0.80      1069'',
      ''macro avg       0.78      0.82      0.80      1069''])"

definition demo_sentences :: sentences where
  "demo_sentences =
     [[''Jane'', ''works''], [''Joe'', ''left''], [''Oslo''], [''Microsoft'', ''grew''],
      [''He'', ''ran''], [''Paris''], [''Ann'', ''sang''], [''IBM''], [''Rome'', ''fell''],
      [''Bob''], [''Lima''], [''Eve'', ''won''], [''Nokia''], [''Cairo''], [''Tom''],
      [''Kim'', ''sat''], [''Intel''], [''Bonn''], [''Sue''], [''Caloi'', ''sold'']]"

definition demo_labels :: sentences where
  "demo_labels =
     [[''I-PER'', ''O''], [''I-PER'', ''O''], [''I-LOC''], [''I-ORG'', ''O''],
      [''O'', ''O''], [''I-LOC''], [''I-PER'', ''O''], [''I-ORG''], [''I-LOC'', ''O''],
      [''I-PER''], [''I-LOC''], [''I-PER'', ''O''], [''I-ORG''], [''I-LOC''], [''I-PER''],
      [''I-PER'', ''O''], [''I-ORG''], [''I-LOC''], [''I-PER''], [''I-ORG'', ''O'']]"

type_synonym demo_loader = "sentences \<times> sentences option"

definition demo_env ::
  "(string, nat, nat, string, unit, string list, demo_loader, demo_loader, nat, sentences,
    unit, unit) env" where
  "demo_env = \<lparr>
     float_of_string = (\<lambda>s. if s \<noteq> [] \<and> set s \<subseteq> set ''0123456789.'' then Some s else None),
     float_times_len = (\<lambda>m k n. (m * int n) div 10 ^ k),
     TemporaryDirectory = (\<lambda>w. (Inr (if w = 0 then ''/tmp/a'' else ''/tmp/b''), Suc w)),
     random_seed = (\<lambda>a. nat a),
     random_choose = (\<lambda>g n k. (take k (rev [0..<n]), Suc g)),
     torch_manual_seed = (\<lambda>a. Inr ()),
     train_test_split = (\<lambda>xs ys frac seed.
        let n_test = (3 * length xs + 9) div 10 in
        if length xs \<le> n_test then Inl ''ValueError: the train set will be empty''
        else Inr (drop n_test xs, take n_test xs, drop n_test ys, take n_test ys)),
     DataFrame = (\<lambda>cols. Inr ()),
     head = (\<lambda>df n. Inr ()),
     classification_report = (\<lambda>t p digits. Inr demo_report),
     glue = (\<lambda>name v. Inr ()),
     maybe_download = (\<lambda>url name dir w. (Inr (path_join dir name), w)),
     read_conll_file = (\<lambda>path sep w. (Inr (demo_sentences, demo_labels), w)),
     TokenClassificationProcessor = (\<lambda>name lower cache. Inr ()),
     create_label_map = (\<lambda>labels tag. Inr (remdups (concat labels) @ [tag])),
     len_label_map = (\<lambda>m. int (length m)),
     preprocess = (\<lambda>p text max_len labels m tag. Inr (text, labels)),
     dataloader_from_dataset = (\<lambda>d batch gpus shuffle distributed. Inr d),
     TokenClassifier = (\<lambda>name num_labels cache. Inr 0),
     fit = (\<lambda>c l epochs gpus rank wd lr eps warmup verbose seed. (Inr (), c + nat epochs)),
     predict = (\<lambda>c l gpus verbose. Inr (map (map (\<lambda>t. ''O'')) (fst l))),
     get_true_test_labels = (\<lambda>c m d. Inr (case snd d of None \<Rightarrow> [] | Some ls \<Rightarrow> ls)),
     get_predicted_token_labels = (\<lambda>c r m d. Inr r),
     Timer = Inr (),
     Timer_enter = (\<lambda>t. Inr t),
     Timer_exit = (\<lambda>t raised. Inr (False, t)),
     Timer_interval = (\<lambda>t. Inr ''0'') \<rparr>"

text \<open>The same library on a machine whose memory runs out during training.\<close>

definition oom_env ::
  "(string, nat, nat, string, unit, string list, demo_loader, demo_loader, nat, sentences,
    unit, unit) env" where
  "oom_env =
     demo_env\<lparr>fit := (\<lambda>c l epochs gpus rank wd lr eps warmup verbose seed.
                        (Inl ''CUDA out of memory'', c))\<rparr>"


text \<open>
  A report in which a weighted-average row follows the macro-average row, the layout of later
  releases of \<^verbatim>\<open>seqeval\<close>, and the stub library whose \<^verbatim>\<open>classification_report\<close> returns it.
\<close>

definition weighted_report :: string where
  "weighted_report = concat (map (\<lambda>l. l @ [CHR 0x0A])
     [''              precision    recall  f1-score   support'',
      [],
      ''         LOC       0.00      0.00      0.00         2'',
      ''         PER       0.50      1.00      0.67         1'',
      [],
      ''   micro avg       0.33      0.33      0.33         3'',
      ''   macro avg       0.25      0.50      0.33         3'',
      ''weighted avg       0.17      0.33      0.22         3''])"

definition weighted_env ::
  "(string, nat, nat, string, unit, string list, demo_loader, demo_loader, nat, sentences,
    unit, unit) env" where
  "weighted_env = demo_env\<lparr>classification_report := (\<lambda>t p digits. Inr weighted_report)\<rparr>"

definition start :: "(nat, nat, demo_loader, string, string) nbstate" where
  "start = \<lparr>world = 0, rng = 0, calls = []\<rparr>"


text \<open>
  The run of the notebook on the stub library, written out: the loaders of the three data
  sets, the calls a complete run makes, and the names bound at its end.
\<close>

definition demo_train :: demo_loader where
  "demo_train = (drop 6 (rev demo_sentences), Some (drop 6 (rev demo_labels)))"

definition demo_test :: demo_loader where
  "demo_test = (take 6 (rev demo_sentences), Some (take 6 (rev demo_labels)))"

definition demo_sample :: demo_loader where
  "demo_sample = (map str_split sample_text, None)"

definition demo_calls :: "(demo_loader, string) call list" where
  "demo_calls =
     [Call_TemporaryDirectory, Call_TemporaryDirectory, Call_torch_manual_seed 100,
      Call_maybe_download
        (''https://raw.githubusercontent.com/juand-r/entity-recognition-datasets'' @
         ''/master/data/wikigold/CONLL-format/data/wikigold.conll.txt'')
        ''wikigold.conll.txt'' ''/tmp/a'',
      Call_read_conll_file ''/tmp/a/wikigold.conll.txt'' '' '',
      Call_random_seed 100, Call_random_sample 20 20,
      Call_train_test_split (Decimal 3 1) 100,
      Call_DataFrame, Call_head,
      Call_TokenClassificationProcessor, Call_create_label_map,
      Call_preprocess (fst demo_train) (snd demo_train), Call_dataloader_from_dataset True,
      Call_preprocess (fst demo_test) (snd demo_test), Call_dataloader_from_dataset False,
      Call_TokenClassifier,
      Call_Timer, Call_Timer_enter, Call_fit demo_train 5 100, Call_Timer_exit,
      Call_Timer_interval, Call_print Training_time,
      Call_Timer, Call_Timer_enter, Call_predict demo_test, Call_Timer_exit,
      Call_Timer_interval, Call_print Prediction_time,
      Call_get_true_test_labels, Call_get_predicted_token_labels,
      Call_classification_report, Call_print Report,
      Call_preprocess (fst demo_sample) None, Call_dataloader_from_dataset False,
      Call_predict demo_sample, Call_get_predicted_token_labels,
      Call_print (Example_text 0), Call_DataFrame, Call_print (Example_frame 0),
      Call_print (Example_text 1), Call_DataFrame, Call_print (Example_frame 1),
      Call_glue ''precision'' ''0.78'', Call_glue ''recall'' ''0.82'', Call_glue ''f1'' ''0.80'']"

definition demo_namespace ::
  "(unit, string list, demo_loader, demo_loader, nat, sentences) namespace" where
  "demo_namespace = \<lparr>
     cfg = \<lparr>
       DATA_URL =
         ''https://raw.githubusercontent.com/juand-r/entity-recognition-datasets'' @
         ''/master/data/wikigold/CONLL-format/data/wikigold.conll.txt'',
       TEST_DATA_FRACTION = Decimal 3 1, SAMPLE_RATIO = Integer 1,
       DATA_PATH = ''/tmp/a'', CACHE_DIR = ''/tmp/b'', RANDOM_SEED = 100,
       NUM_TRAIN_EPOCHS = 5, MODEL_NAME = ''bert-base-cased'', DO_LOWER_CASE = False,
       MAX_SEQ_LENGTH = 200, TRAILING_PIECE_TAG = ''X'', NUM_GPUS = None, BATCH_SIZE = 16 \<rparr>,
     sentence_list = rev demo_sentences,
     labels_list = rev demo_labels,
     train_sentence_list = fst demo_train,
     test_sentence_list = fst demo_test,
     train_labels_list = drop 6 (rev demo_labels),
     test_labels_list = take 6 (rev demo_labels),
     processor = (),
     label_map = [''I-ORG'', ''I-LOC'', ''I-PER'', ''O'', ''X''],
     train_dataset = demo_train, train_dataloader = demo_train,
     test_dataset = demo_test, test_dataloader = demo_test,
     model = 5,
     true_labels = take 6 (rev demo_labels),
     report = demo_report,
     sample_dataloader = demo_sample,
     preds = map (map (\<lambda>t. ''O'')) (fst demo_sample),
     predicted_labels = map (map (\<lambda>t. ''O'')) (fst demo_sample) \<rparr>"

section \<open>Predicates on runs\<close>

text \<open>
  \<open>quiet\<close>: every call of the trace returned. \<open>timed_call\<close>: a call of \<open>fit\<close> or \<open>predict\<close>, the
  two calls the notebook makes inside a \<^verbatim>\<open>with Timer()\<close> block. \<open>after_failure c post\<close>: what may
  be called after a call \<open>c\<close> that raised is nothing, or, for a timed call, one exit of the
  timer, which returned.
\<close>

definition quiet :: "('c \<times> 'e outcome) list \<Rightarrow> bool" where
  "quiet evs \<longleftrightarrow> (\<forall>ev\<in>set evs. snd ev = Returned)"






text \<open>
  What \<^verbatim>\<open>train_test_split\<close> of \<^verbatim>\<open>sklearn\<close> promises for two lists of one length: the parts it
  returns are the elements at two lists of positions that share no position, the same
  positions for both lists.
\<close>

definition splits_by_position ::
  "('x, 'w, 'g, 'f, 'p, 'm, 'd, 'l, 'c, 'r, 't, 'v) env \<Rightarrow> bool" where
  "splits_by_position E \<longleftrightarrow>
     (\<forall>xs ys frac seed a b c d.
        length xs = length ys \<longrightarrow>
        train_test_split E xs ys frac seed = Inr (a, b, c, d) \<longrightarrow>
        (\<exists>train test.
           distinct (train @ test) \<and> set (train @ test) \<subseteq> {..<length xs} \<and>
           a = map (nth xs) train \<and> b = map (nth xs) test \<and>
           c = map (nth ys) train \<and> d = map (nth ys) test))"

text \<open>
  \<open>emits p m xs\<close>: in every run of \<open>m\<close>, what \<open>p\<close> shows of the calls made is \<open>xs\<close> if the run
  completes, and a prefix of \<open>xs\<close> if it raises.
\<close>

definition opt_list :: "'b option \<Rightarrow> 'b list" where
  "opt_list v = (case v of None \<Rightarrow> [] | Some b \<Rightarrow> [b])"

definition emits ::
  "(('l, 'f) call \<Rightarrow> 'b option) \<Rightarrow> ('w, 'g, 'l, 'f, 'x, 'a) prog \<Rightarrow> 'b list \<Rightarrow> bool" where
  "emits p m xs \<longleftrightarrow>
     (\<forall>s r s'. m s = (r, s') \<longrightarrow>
        (\<exists>evs. calls s' = calls s @ evs \<and> prefix (proj p evs) xs \<and>
               (\<not> isl r \<longrightarrow> proj p evs = xs)))"

section \<open>Rules for sequences of calls\<close>

lemma seq_cases:
  assumes "seq m f s = (r, s'')"
  obtains (raised) e where "m s = (Inl e, s'')" "r = Inl e"
        | (returned) a s' where "m s = (Inr a, s')" "f a s' = (r, s'')"
  using assms by (auto simp: seq_def split: prod.splits sum.splits)

lemma quiet_Nil [simp]: "quiet []"
  by (simp add: quiet_def)

lemma quiet_append [simp]: "quiet (xs @ ys) \<longleftrightarrow> quiet xs \<and> quiet ys"
  by (auto simp: quiet_def)

lemma quiet_Cons [simp]: "quiet (ev # evs) \<longleftrightarrow> snd ev = Returned \<and> quiet evs"
  by (auto simp: quiet_def)







lemma getitem_not_Raised [simp]: "getitem xs i \<noteq> Inl (Raised x)"
  by (simp add: getitem_def Let_def)

lemma to_float_not_Raised [simp]: "to_float E str \<noteq> Inl (Raised x)"
  by (simp add: to_float_def split: option.splits)

lemma lookup_not_Raised [simp]: "lookup v \<noteq> Inl (Raised x)"
  by (simp add: lookup_def split: option.splits)

lemma unzip_pairs_not_Raised [simp]: "unzip_pairs ps \<noteq> Inl (Raised x)"
  by (simp add: unzip_pairs_def)














lemmas cell_defs = configure_def load_and_preprocess_def get_dataset_def download_and_parse_def
  sample_and_split_def sub_sample_def split_train_test_def show_example_def create_datasets_def
  train_model_def score_test_def evaluate_def score_examples_def record_metrics_def



subsection \<open>What a projection of the trace shows\<close>

lemma proj_Nil [simp]: "proj p [] = []"
  by (simp add: proj_def List.map_filter_simps)

lemma proj_Cons [simp]: "proj p (ev # evs) = opt_list (p (fst ev)) @ proj p evs"
  by (simp add: proj_def opt_list_def List.map_filter_simps split: option.splits)

lemma proj_append [simp]: "proj p (xs @ ys) = proj p xs @ proj p ys"
  by (induction xs) simp_all

lemma opt_list_simps [simp]: "opt_list None = []" "opt_list (Some b) = [b]"
  by (simp_all add: opt_list_def)

lemma emits_ret: "emits p (ret a) []"
  by (simp add: emits_def ret_def)

lemma emits_lift: "emits p (lift r) []"
  by (simp add: emits_def lift_def)

lemma emits_call: "p c = v \<Longrightarrow> emits p (call c res) (opt_list v)"
  by (cases res) (auto simp: emits_def call_def log_def)

lemma emits_call_w: "p c = v \<Longrightarrow> emits p (call_w c f) (opt_list v)"
  by (auto simp: emits_def call_w_def log_def split: prod.splits sum.splits)

lemma emits_print: "p (Call_print x) = v \<Longrightarrow> emits p (print x) (opt_list v)"
  by (auto simp: emits_def print_def log_def)

lemma emits_py_random_seed: "p (Call_random_seed a) = v \<Longrightarrow> emits p (py_random_seed E a) (opt_list v)"
  by (auto simp: emits_def py_random_seed_def log_def)

lemma emits_py_random_sample:
  "p (Call_random_sample (length pop) k) = v \<Longrightarrow> emits p (py_random_sample E pop k) (opt_list v)"
  by (auto simp: emits_def py_random_sample_def log_def Let_def split: prod.splits if_splits)

lemma emits_seq:
  assumes m: "emits p m xs" and f: "\<And>a. emits p (f a) ys"
  shows "emits p (seq m f) (xs @ ys)"
  unfolding emits_def
proof (intro allI impI)
  fix s r s''
  assume "seq m f s = (r, s'')"
  then show "\<exists>evs. calls s'' = calls s @ evs \<and> prefix (proj p evs) (xs @ ys) \<and>
                   (\<not> isl r \<longrightarrow> proj p evs = xs @ ys)"
  proof (cases rule: seq_cases)
    case (raised e)
    from m raised(1) obtain evs where "calls s'' = calls s @ evs" "prefix (proj p evs) xs"
      unfolding emits_def by fastforce
    with raised show ?thesis by (auto intro: prefix_prefix)
  next
    case (returned a s')
    from m returned(1) obtain evs1 where 1: "calls s' = calls s @ evs1" "proj p evs1 = xs"
      unfolding emits_def by fastforce
    from f [of a] returned(2) obtain evs2 where
      2: "calls s'' = calls s' @ evs2" "prefix (proj p evs2) ys" "\<not> isl r \<longrightarrow> proj p evs2 = ys"
      unfolding emits_def by fastforce
    from 1 2 have "calls s'' = calls s @ (evs1 @ evs2) \<and> prefix (proj p (evs1 @ evs2)) (xs @ ys) \<and>
                   (\<not> isl r \<longrightarrow> proj p (evs1 @ evs2) = xs @ ys)"
      by simp
    then show ?thesis by blast
  qed
qed

lemma emits_case_prod: "(\<And>a b. emits p (f a b) xs) \<Longrightarrow> emits p (case_prod f q) xs"
  by (cases q) simp

lemma emits_with_Timer_call:
  assumes none: "p Call_Timer = None" "p Call_Timer_enter = None" "p Call_Timer_exit = None"
    and c: "p c = v"
  shows "emits p (with_Timer E (call c res)) (opt_list v)"
proof -
  have inner: "emits p (\<lambda>s. case call c res s of
            (Inl e, s') \<Rightarrow> seq (call Call_Timer_exit (Timer_exit E t True))
                (\<lambda>(suppress, t'). if suppress then ret (None, t') else lift (Inl e)) s'
          | (Inr a, s') \<Rightarrow> seq (call Call_Timer_exit (Timer_exit E t False))
                (\<lambda>(_, t'). ret (Some a, t')) s') (opt_list v)" for t
    using none c
    by (cases res; cases "Timer_exit E t True"; cases "Timer_exit E t False")
       (auto simp: emits_def seq_def call_def log_def ret_def lift_def split: if_splits)
  have "emits p (with_Timer E (call c res)) (opt_list None @ opt_list None @ opt_list v)"
    unfolding with_Timer_def by (intro emits_seq emits_call none inner)
  then show ?thesis by simp
qed

lemma emits_print_examples:
  assumes "p Call_DataFrame = None" "\<And>i. p (Call_print (Example_text i)) = Some a"
    "\<And>i. p (Call_print (Example_frame i)) = Some b"
  shows "emits p (print_examples E text tokens labels idxs) (concat (map (\<lambda>i. [a, b]) idxs))"
proof (induction idxs)
  case Nil
  show ?case by (simp add: emits_ret)
next
  case (Cons i idxs)
  have "emits p (print_examples E text tokens labels (i # idxs)) ([] @ [a] @ [] @ [] @ [] @ [b] @ concat (map (\<lambda>i. [a, b]) idxs))"
    unfolding print_examples.simps
    by (intro emits_seq emits_lift Cons.IH emits_print [of p _ "Some a", simplified] 
         emits_print [of p _ "Some b", simplified] emits_call [of p _ None, simplified] assms)
  then show ?case by simp
qed

lemma emits_print_examples_none:
  assumes "p Call_DataFrame = None" "\<And>x. p (Call_print x) = None"
  shows "emits p (print_examples E text tokens labels idxs) []"
proof (induction idxs)
  case Nil
  show ?case by (simp add: emits_ret)
next
  case (Cons i idxs)
  have "emits p (print_examples E text tokens labels (i # idxs)) ([] @ [] @ [] @ [] @ [] @ [] @ [])"
    unfolding print_examples.simps
    by (intro emits_seq emits_lift Cons.IH emits_print [of p _ None, simplified] 
         emits_call [of p _ None, simplified] assms)
  then show ?case by simp
qed

lemma emits_eq: "emits p m xs \<Longrightarrow> xs = ys \<Longrightarrow> emits p m ys"
  by simp

lemmas emits_intros = emits_seq emits_ret emits_lift emits_call emits_call_w emits_print
  emits_py_random_seed emits_py_random_sample emits_case_prod

lemma emits_configure_stages:
  "emits stage_of (configure E q) [Configuration, Configuration, Configuration]"
  unfolding configure_def Let_def
  apply (rule emits_eq)
   apply (rule emits_intros | simp)+
  done

lemma stages_sample_text: "concat (map (\<lambda>i. [Examples, Examples]) [0..<length sample_text]) = [Examples, Examples, Examples, Examples]"
  by (simp add: sample_text_def upt_rec)

lemma emits_pipeline_stages: "emits stage_of (pipeline E c) (drop 3 notebook_stages)"
  unfolding pipeline_def cell_defs Let_def
  apply (rule emits_eq)
   apply (rule emits_intros emits_with_Timer_call
      emits_print_examples [of stage_of Examples Examples] | simp)+
  apply (simp add: notebook_stages_def stages_sample_text)
  done

lemma emits_notebook_stages: "emits stage_of (notebook E q) notebook_stages"
proof -
  have "emits stage_of (notebook E q) ([Configuration, Configuration, Configuration] @ drop 3 notebook_stages)"
    unfolding notebook_def by (intro emits_seq emits_configure_stages emits_pipeline_stages)
  then show ?thesis by (simp add: notebook_stages_def)
qed

lemma emits_configure_epochs: "emits epochs_call (configure E q) []"
  unfolding configure_def Let_def
  apply (rule emits_eq)
   apply (rule emits_intros | simp)+
  done

lemma emits_pipeline_epochs: "emits epochs_call (pipeline E c) [NUM_TRAIN_EPOCHS c]"
  unfolding pipeline_def cell_defs Let_def
  apply (rule emits_eq)
   apply (rule emits_intros emits_with_Timer_call emits_print_examples_none | simp)+
  done

lemma configure_epochs:
  "configure E q s = (Inr c, s') \<Longrightarrow> NUM_TRAIN_EPOCHS c = (if q then 1 else 5)"
  by (auto simp: configure_def seq_def call_def call_w_def ret_def Let_def split: prod.splits sum.splits)

section \<open>The runs on the stub library\<close>

lemmas run_defs = notebook_def pipeline_def cell_defs with_Timer_def
  seq_def call_def call_w_def ret_def lift_def log_def print_def py_random_seed_def
  py_random_sample_def sample_size_def unzip_pairs_def lookup_def to_float_def getitem_def
  str_split_def str_split_sep_def path_join_def is_space_def sample_text_def Let_def

lemmas demo_defs = demo_env_def oom_env_def start_def demo_report_def demo_sentences_def
  demo_labels_def demo_train_def demo_test_def demo_sample_def demo_calls_def demo_namespace_def

lemma demo_run:
  "notebook demo_env False start =
     (Inr demo_namespace, \<lparr>world = 2, rng = 101, calls = map (\<lambda>c. (c, Returned)) demo_calls\<rparr>)"
  by (simp add: run_defs demo_defs)



lemma weighted_run:
  "notebook weighted_env False start =
     (Inr (demo_namespace\<lparr>report := weighted_report\<rparr>),
      \<lparr>world = 2, rng = 101,
       calls = map (\<lambda>c. (c, Returned)) (take 43 demo_calls @
                 [Call_glue ''precision'' ''0.17'', Call_glue ''recall'' ''0.33'',
                  Call_glue ''f1'' ''0.22''])\<rparr>)"
  by (simp add: run_defs demo_defs weighted_env_def weighted_report_def)

section \<open>C1: the order of the stages\<close>

lemma notebook_stages_first_seen:
  "rev (remdups (rev notebook_stages)) =
     [Configuration, Download, Parse, Split, Datasets, Loaders, Model, Fitting, Prediction,
      Metrics, Examples]"
  by (simp add: notebook_stages_def)

text \<open>
  C1, as stated: the stages of the calls of a run are in the listed order, no stage running
  before one that precedes it in the list. It fails on the complete run on the stub library:
  the loader of the training set is made before the dataset of the test set, and the cell that
  scores the example sentences makes a dataset, a loader and predictions after the metrics.
\<close>

theorem stages_not_sorted_counterexample:
  "\<not> sorted (map stage_index (stages (calls (snd (notebook demo_env False start)))))"
  by (simp add: demo_run stages_def demo_calls_def)

text \<open>
  C1, amended: in every run the calls are made in the order of the source. What the trace
  shows of the listed stages is \<open>notebook_stages\<close> when the run completes and a prefix of it
  when the run raises; in that sequence each stage is first entered in the listed order, while
  datasets and loaders alternate and a dataset, a loader and a prediction follow the metrics.
\<close>

theorem stages_in_source_order:
  assumes "notebook E QUICK_RUN s0 = (r, s)" and "calls s0 = []"
  shows "prefix (stages (calls s)) notebook_stages \<and>
         (\<not> isl r \<longrightarrow> stages (calls s) = notebook_stages) \<and>
         rev (remdups (rev notebook_stages)) =
           [Configuration, Download, Parse, Split, Datasets, Loaders, Model, Fitting,
            Prediction, Metrics, Examples]"
proof -
  from emits_notebook_stages [of E QUICK_RUN] assms(1)
  obtain evs where "calls s = calls s0 @ evs" "prefix (proj stage_of evs) notebook_stages"
    "\<not> isl r \<longrightarrow> proj stage_of evs = notebook_stages"
    unfolding emits_def by blast
  with assms(2) show ?thesis
    by (simp add: stages_def notebook_stages_first_seen)
qed

theorem stages_in_source_order_witness:
  "notebook demo_env False start = (Inr demo_namespace, snd (notebook demo_env False start)) \<and>
   calls start = [] \<and>
   stages (calls (snd (notebook demo_env False start))) = notebook_stages"
proof -
  have r: "notebook demo_env False start =
             (Inr demo_namespace, snd (notebook demo_env False start))"
    by (simp add: demo_run)
  have c: "calls start = []" by (simp add: start_def)
  from stages_in_source_order [OF r c] r c show ?thesis by simp
qed

section \<open>C2: a failure of a library ends the run\<close>





section \<open>C4: the number of epochs\<close>

text \<open>
  C4: \<open>fit\<close> is called with \<open>num_epochs\<close> 5, or 1 when \<open>QUICK_RUN\<close> is set, and it is called
  once: in a run that completes the epochs of the \<open>fit\<close> calls are exactly that one number, in
  a run that raises they are that or nothing.
\<close>

theorem fit_once_with_configured_epochs:
  assumes "notebook E QUICK_RUN s0 = (r, s)" and "calls s0 = []"
  shows "prefix (fit_epochs (calls s)) [if QUICK_RUN then 1 else 5] \<and>
         (\<not> isl r \<longrightarrow> fit_epochs (calls s) = [if QUICK_RUN then 1 else 5])"
proof -
  from assms(1) have "seq (configure E QUICK_RUN) (pipeline E) s0 = (r, s)"
    by (simp add: notebook_def)
  then show ?thesis
  proof (cases rule: seq_cases)
    case (raised e)
    with emits_configure_epochs [of E QUICK_RUN] obtain evs where
      "calls s = calls s0 @ evs" "prefix (proj epochs_call evs) []"
      unfolding emits_def by blast
    with raised assms(2) show ?thesis by (simp add: fit_epochs_def)
  next
    case (returned c s')
    with emits_configure_epochs [of E QUICK_RUN] obtain evs1 where
      1: "calls s' = calls s0 @ evs1" "proj epochs_call evs1 = []"
      unfolding emits_def by fastforce
    from returned emits_pipeline_epochs [of E c] obtain evs2 where
      2: "calls s = calls s' @ evs2" "prefix (proj epochs_call evs2) [NUM_TRAIN_EPOCHS c]"
        "\<not> isl r \<longrightarrow> proj epochs_call evs2 = [NUM_TRAIN_EPOCHS c]"
      unfolding emits_def by blast
    from returned(1) have "NUM_TRAIN_EPOCHS c = (if QUICK_RUN then 1 else 5)"
      by (rule configure_epochs)
    with 1 2 assms(2) show ?thesis by (simp add: fit_epochs_def)
  qed
qed

theorem fit_once_with_configured_epochs_witness:
  "notebook demo_env False start = (Inr demo_namespace, snd (notebook demo_env False start)) \<and>
   calls start = [] \<and>
   fit_epochs (calls (snd (notebook demo_env False start))) = [5]"
proof -
  have r: "notebook demo_env False start =
             (Inr demo_namespace, snd (notebook demo_env False start))"
    by (simp add: demo_run)
  have c: "calls start = []" by (simp add: start_def)
  from fit_once_with_configured_epochs [OF r c] r c show ?thesis by simp
qed

section \<open>C3 and C9: the metrics recorded by the last cell\<close>

lemma glued_Nil [simp]: "glued [] = []"
  by (simp add: glued_def)

lemma glued_Cons_glue [simp]:
  "glued ((Call_glue name v, out) # evs) = (if out = Returned then (name, v) # glued evs else glued evs)"
  by (simp add: glued_def)

lemma getitem_line:
  "getitem (str_split_sep rep CHR 0x0A) (- 2) =
     (if length (str_split_sep rep CHR 0x0A) < 2 then Inl IndexError
      else Inr (str_split_sep rep CHR 0x0A ! (length (str_split_sep rep CHR 0x0A) - 2)))"
  by (auto simp: getitem_def Let_def nat_diff_distrib' intro!: arg_cong [where f = "nth _"])

lemma getitem_field:
  "getitem xs (int n) = (if n < length xs then Inr (xs ! n) else Inl IndexError)"
  by (simp add: getitem_def Let_def)

lemma getitem_numeral:
  "getitem xs (numeral k) = (if numeral k < length xs then Inr (xs ! numeral k) else Inl IndexError)"
  using getitem_field [of xs "numeral k"] by simp

lemma emitsD:
  "emits p m xs \<Longrightarrow> m s = (r, s') \<Longrightarrow>
     \<exists>evs. calls s' = calls s @ evs \<and> prefix (proj p evs) xs \<and> (\<not> isl r \<longrightarrow> proj p evs = xs)"
  unfolding emits_def by (elim allE impE) assumption

lemma emits_none:
  assumes "emits p m []" and "m s = (r, s')"
  shows "\<exists>evs. calls s' = calls s @ evs \<and> proj p evs = []"
  using emitsD [OF assms] by auto

lemma proj_filter_Nil: "proj p evs = [] \<Longrightarrow> proj p (filter P evs) = []"
  by (induction evs) (auto simp: opt_list_def split: option.splits)

lemma glued_append [simp]: "glued (xs @ ys) = glued xs @ glued ys"
  by (simp add: glued_def)

lemma glued_no_glue: "proj glue_call evs = [] \<Longrightarrow> glued evs = []"
  by (simp add: glued_def proj_filter_Nil)

lemma notebook_Inr:
  assumes "notebook E q s0 = (Inr ns, s)"
  shows "\<exists>c s1 s2 s3 s4 s5 s6 test_preds.
    configure E q s0 = (Inr c, s1) \<and> cfg ns = c \<and>
    load_and_preprocess E c s1 =
      (Inr (sentence_list ns, labels_list ns, train_sentence_list ns, test_sentence_list ns,
            train_labels_list ns, test_labels_list ns, processor ns, label_map ns,
            train_dataset ns, train_dataloader ns, test_dataset ns, test_dataloader ns), s2) \<and>
    train_model E c (label_map ns) (train_dataloader ns) s2 = (Inr (model ns), s3) \<and>
    score_test E (model ns) (test_dataloader ns) s3 = (Inr test_preds, s4) \<and>
    evaluate E (model ns) (label_map ns) (test_dataset ns) test_preds s4 =
      (Inr (true_labels ns, report ns), s5) \<and>
    score_examples E c (processor ns) (label_map ns) (model ns) s5 =
      (Inr (sample_dataloader ns, preds ns, predicted_labels ns), s6) \<and>
    record_metrics E (report ns) s6 = (Inr (), s)"
  using assms unfolding notebook_def pipeline_def
  by (auto simp: seq_def ret_def split: prod.splits sum.splits)

lemma emits_configure_glue: "emits glue_call (configure E q) []"
  unfolding configure_def Let_def
  apply (rule emits_eq)
   apply (rule emits_intros | simp)+
  done

lemma emits_load_glue: "emits glue_call (load_and_preprocess E c) []"
  unfolding cell_defs Let_def
  apply (rule emits_eq)
   apply (rule emits_intros | simp)+
  done

lemma emits_train_glue: "emits glue_call (train_model E c lm dl) []"
  unfolding cell_defs Let_def
  apply (rule emits_eq)
   apply (rule emits_intros emits_with_Timer_call | simp)+
  done

lemma emits_score_test_glue: "emits glue_call (score_test E mdl dl) []"
  unfolding cell_defs Let_def
  apply (rule emits_eq)
   apply (rule emits_intros emits_with_Timer_call | simp)+
  done

lemma emits_evaluate_glue: "emits glue_call (evaluate E mdl lm ds p) []"
  unfolding cell_defs Let_def
  apply (rule emits_eq)
   apply (rule emits_intros | simp)+
  done

lemma emits_score_examples_glue: "emits glue_call (score_examples E c pr lm mdl) []"
  unfolding cell_defs Let_def
  apply (rule emits_eq)
   apply (rule emits_intros emits_print_examples_none | simp)+
  done

lemma record_metrics_Inr:
  assumes "record_metrics E rep s = (Inr u, s')"
  shows "\<exists>cols p r f. report_fields rep = Some cols \<and> 5 \<le> length cols \<and>
           float_of_string E (cols ! 2) = Some p \<and> float_of_string E (cols ! 3) = Some r \<and>
           float_of_string E (cols ! 4) = Some f \<and>
           calls s' = calls s @ [(Call_glue ''precision'' p, Returned),
             (Call_glue ''recall'' r, Returned), (Call_glue ''f1'' f, Returned)]"
proof (cases "report_fields rep")
  case None
  then have "length (str_split_sep rep CHR 0x0A) < 2"
    by (simp add: report_fields_def Let_def split: if_splits)
  with assms show ?thesis
    by (simp add: record_metrics_def seq_def lift_def getitem_line)
next
  case (Some cols)
  then have len: "\<not> length (str_split_sep rep CHR 0x0A) < 2"
    and cols_eq: "cols = str_split (str_split_sep rep CHR 0x0A ! (length (str_split_sep rep CHR 0x0A) - 2))"
    by (simp_all add: report_fields_def Let_def split: if_splits)
  from assms len cols_eq
  have "seq (lift (getitem cols 2)) (\<lambda>field2.
     seq (lift (to_float E field2)) (\<lambda>precision.
     seq (call (Call_glue ''precision'' precision) (glue E ''precision'' precision)) (\<lambda>_.
     seq (lift (getitem cols 3)) (\<lambda>field3.
     seq (lift (to_float E field3)) (\<lambda>recall.
     seq (call (Call_glue ''recall'' recall) (glue E ''recall'' recall)) (\<lambda>_.
     seq (lift (getitem cols 4)) (\<lambda>field4.
     seq (lift (to_float E field4)) (\<lambda>f1.
     call (Call_glue ''f1'' f1) (glue E ''f1'' f1))))))))) s = (Inr u, s')"
    by (simp add: record_metrics_def getitem_line Let_def seq_def lift_def)
  then show ?thesis
    using Some
    by (auto simp: seq_def lift_def call_def log_def getitem_numeral to_float_def
          split: if_splits option.splits sum.splits)
qed

lemma demo_report_fields:
  "report_fields demo_report = Some [''macro'', ''avg'', ''0.78'', ''0.82'', ''0.80'', ''1069'']"
  by (simp add: report_fields_def demo_report_def str_split_sep_def str_split_def is_space_def)

lemma demo_glue: "\<forall>name v. glue demo_env name v = Inr ()"
  by (simp add: demo_env_def)

lemma demo_float [simp]:
  "float_of_string demo_env s = (if s \<noteq> [] \<and> set s \<subseteq> set ''0123456789.'' then Some s else None)"
  by (simp add: demo_env_def)

lemma split_sep_append:
  "split_sep sep w (xs @ sep # ys) = split_sep sep w xs @ split_sep sep [] ys"
  by (induction xs arbitrary: w) simp_all

lemma split_sep_no_sep: "sep \<notin> set xs \<Longrightarrow> split_sep sep w xs = [w @ xs]"
  by (induction xs arbitrary: w) auto

lemma split_sep_last_row:
  assumes "sep \<notin> set row"
  shows "split_sep sep w (row @ [sep]) = [w @ row, []]"
  using split_sep_append [of sep w row "[]"] assms by (simp add: split_sep_no_sep)

lemma report_fields_last_row:
  assumes "ends_with_row rep row"
  shows "report_fields rep = Some (str_split row)"
proof -
  from assms have row: "CHR 0x0A \<notin> set row"
    and rep: "rep = row @ [CHR 0x0A] \<or> suffix (CHR 0x0A # row @ [CHR 0x0A]) rep"
    by (simp_all add: ends_with_row_def)
  have "\<exists>front. str_split_sep rep CHR 0x0A = front @ [row, []]"
  proof (cases "rep = row @ [CHR 0x0A]")
    case True
    then have "str_split_sep rep CHR 0x0A = [] @ [row, []]"
      by (simp add: str_split_sep_def split_sep_last_row [OF row])
    then show ?thesis by blast
  next
    case False
    with rep obtain zs where "rep = zs @ CHR 0x0A # row @ [CHR 0x0A]"
      by (auto simp: suffix_def)
    then have "str_split_sep rep CHR 0x0A =
        split_sep CHR 0x0A [] zs @ split_sep CHR 0x0A [] (row @ [CHR 0x0A])"
      by (simp only: str_split_sep_def split_sep_append)
    then have "str_split_sep rep CHR 0x0A = split_sep CHR 0x0A [] zs @ [row, []]"
      by (simp add: split_sep_last_row [OF row])
    then show ?thesis by blast
  qed
  then obtain front where "str_split_sep rep CHR 0x0A = front @ [row, []]" by blast
  then show ?thesis
    by (simp add: report_fields_def Let_def nth_append)
qed

lemma demo_report_last_row:
  "ends_with_row demo_report ''macro avg       0.78      0.82      0.80      1069''"
  by (simp add: ends_with_row_def demo_report_def suffix_to_prefix)

lemma weighted_report_rows:
  "str_split (str_split_sep weighted_report CHR 0x0A ! 6) =
     [''macro'', ''avg'', ''0.25'', ''0.50'', ''0.33'', ''3''] \<and>
   report_fields weighted_report =
     Some [''weighted'', ''avg'', ''0.17'', ''0.33'', ''0.22'', ''3'']"
  by (simp add: report_fields_def weighted_report_def str_split_sep_def str_split_def is_space_def)

text \<open>
  C3, as stated: the three values recorded are those of the macro-average row of the report.
  It fails on a report in which a weighted-average row follows the macro-average row: the run
  completes and records 0.17, 0.33 and 0.22, the values of the weighted-average row, while the
  macro-average row of that report (its line 6) reads 0.25, 0.50 and 0.33.
\<close>

theorem weighted_average_recorded_counterexample:
  "fst (notebook weighted_env False start) = Inr (demo_namespace\<lparr>report := weighted_report\<rparr>) \<and>
   str_split (str_split_sep weighted_report CHR 0x0A ! 6) =
     [''macro'', ''avg'', ''0.25'', ''0.50'', ''0.33'', ''3''] \<and>
   report_fields weighted_report =
     Some [''weighted'', ''avg'', ''0.17'', ''0.33'', ''0.22'', ''3''] \<and>
   glued (calls (snd (notebook weighted_env False start))) =
     [(''precision'', ''0.17''), (''recall'', ''0.33''), (''f1'', ''0.22'')]"
  by (simp add: weighted_run weighted_report_rows demo_calls_def glued_def)

text \<open>
  C3, amended: a run that completes records exactly three metrics, named precision, recall and
  f1 in this order, and their values are the floats parsed from fields 2, 3 and 4 of the
  second-to-last line of the report string. When the report ends with a newline, that line is
  the last row of the report, whichever row that is: the macro-average row for the report in
  the notebook's saved output, which the witness uses, and another row for a report that ends
  with another row.
\<close>

theorem three_metrics_recorded:
  assumes "notebook E QUICK_RUN s0 = (Inr ns, s)" and "calls s0 = []"
  shows "\<exists>cols p r f. report_fields (report ns) = Some cols \<and> 5 \<le> length cols \<and>
           float_of_string E (cols ! 2) = Some p \<and> float_of_string E (cols ! 3) = Some r \<and>
           float_of_string E (cols ! 4) = Some f \<and>
           glued (calls s) = [(''precision'', p), (''recall'', r), (''f1'', f)] \<and>
           (\<forall>row. ends_with_row (report ns) row \<longrightarrow> cols = str_split row)"
proof -
  from notebook_Inr [OF assms(1)] obtain c s1 s2 s3 s4 s5 s6 test_preds where
    run: "configure E QUICK_RUN s0 = (Inr c, s1)"
      "load_and_preprocess E c s1 =
        (Inr (sentence_list ns, labels_list ns, train_sentence_list ns, test_sentence_list ns,
              train_labels_list ns, test_labels_list ns, processor ns, label_map ns,
              train_dataset ns, train_dataloader ns, test_dataset ns, test_dataloader ns), s2)"
      "train_model E c (label_map ns) (train_dataloader ns) s2 = (Inr (model ns), s3)"
      "score_test E (model ns) (test_dataloader ns) s3 = (Inr test_preds, s4)"
      "evaluate E (model ns) (label_map ns) (test_dataset ns) test_preds s4 =
        (Inr (true_labels ns, report ns), s5)"
      "score_examples E c (processor ns) (label_map ns) (model ns) s5 =
        (Inr (sample_dataloader ns, preds ns, predicted_labels ns), s6)"
      "record_metrics E (report ns) s6 = (Inr (), s)"
    by blast
  from emits_none [OF emits_configure_glue run(1)] assms(2)
  have 1: "glued (calls s1) = []" by (auto simp: glued_no_glue)
  from emits_none [OF emits_load_glue run(2)] 1
  have 2: "glued (calls s2) = []" by (auto simp: glued_no_glue)
  from emits_none [OF emits_train_glue run(3)] 2
  have 3: "glued (calls s3) = []" by (auto simp: glued_no_glue)
  from emits_none [OF emits_score_test_glue run(4)] 3
  have 4: "glued (calls s4) = []" by (auto simp: glued_no_glue)
  from emits_none [OF emits_evaluate_glue run(5)] 4
  have 5: "glued (calls s5) = []" by (auto simp: glued_no_glue)
  from emits_none [OF emits_score_examples_glue run(6)] 5
  have 6: "glued (calls s6) = []" by (auto simp: glued_no_glue)
  from record_metrics_Inr [OF run(7)] obtain cols p r f where
    m: "report_fields (report ns) = Some cols" "5 \<le> length cols"
      "float_of_string E (cols ! 2) = Some p" "float_of_string E (cols ! 3) = Some r"
      "float_of_string E (cols ! 4) = Some f"
      "calls s = calls s6 @ [(Call_glue ''precision'' p, Returned),
         (Call_glue ''recall'' r, Returned), (Call_glue ''f1'' f, Returned)]"
    by blast
  from m(6) 6 have g: "glued (calls s) = [(''precision'', p), (''recall'', r), (''f1'', f)]"
    by simp
  have "cols = str_split row" if "ends_with_row (report ns) row" for row
    using report_fields_last_row [OF that] m(1) by simp
  with m(1-5) g show ?thesis by blast
qed

theorem three_metrics_recorded_witness:
  "notebook demo_env False start = (Inr demo_namespace, snd (notebook demo_env False start)) \<and>
   calls start = [] \<and>
   ends_with_row (report demo_namespace)
     ''macro avg       0.78      0.82      0.80      1069'' \<and>
   report_fields (report demo_namespace) =
     Some [''macro'', ''avg'', ''0.78'', ''0.82'', ''0.80'', ''1069''] \<and>
   glued (calls (snd (notebook demo_env False start))) =
     [(''precision'', ''0.78''), (''recall'', ''0.82''), (''f1'', ''0.80'')]"
proof -
  have r: "notebook demo_env False start =
             (Inr demo_namespace, snd (notebook demo_env False start))"
    by (simp add: demo_run)
  have c: "calls start = []" by (simp add: start_def)
  have e: "ends_with_row (report demo_namespace)
     ''macro avg       0.78      0.82      0.80      1069''"
    by (simp add: demo_namespace_def demo_report_last_row)
  from three_metrics_recorded [OF r c] obtain cols p q v where
    m: "report_fields (report demo_namespace) = Some cols"
      "float_of_string demo_env (cols ! 2) = Some p"
      "float_of_string demo_env (cols ! 3) = Some q"
      "float_of_string demo_env (cols ! 4) = Some v"
      "glued (calls (snd (notebook demo_env False start))) =
         [(''precision'', p), (''recall'', q), (''f1'', v)]"
      "\<forall>row. ends_with_row (report demo_namespace) row \<longrightarrow> cols = str_split row"
    by blast
  from m(6) e have "cols = str_split ''macro avg       0.78      0.82      0.80      1069''"
    by blast
  then have cols: "cols = [''macro'', ''avg'', ''0.78'', ''0.82'', ''0.80'', ''1069'']"
    by (simp add: str_split_def is_space_def)
  from m(2-4) have "p = ''0.78''" "q = ''0.82''" "v = ''0.80''"
    by (simp_all add: cols)
  with m(5) have g: "glued (calls (snd (notebook demo_env False start))) =
     [(''precision'', ''0.78''), (''recall'', ''0.82''), (''f1'', ''0.80'')]"
    by simp
  from m(1) cols have f: "report_fields (report demo_namespace) =
     Some [''macro'', ''avg'', ''0.78'', ''0.82'', ''0.80'', ''1069'']"
    by simp
  from r c e f g show ?thesis by simp
qed

text \<open>
  C9, as stated: a report that violates the shape makes the cell raise with no metric
  recorded. It fails on a report whose second-to-last line is \<^verbatim>\<open>micro avg 0.78\<close>: precision is
  recorded, then reading field 3 raises IndexError.
\<close>

theorem record_metrics_partial_counterexample:
  "\<not> well_shaped demo_env (''micro avg 0.78'' @ [CHR 0x0A]) \<and>
   record_metrics demo_env (''micro avg 0.78'' @ [CHR 0x0A]) start =
     (Inl IndexError,
      \<lparr>world = 0, rng = 0, calls = [(Call_glue ''precision'' ''0.78'', Returned)]\<rparr>)"
  by (simp add: well_shaped_def report_fields_def record_metrics_def seq_def lift_def call_def
        log_def to_float_def getitem_def str_split_sep_def str_split_def is_space_def Let_def
        start_def demo_env_def)

text \<open>
  C9, amended: provided \<^verbatim>\<open>sb.glue\<close> itself does not raise, the cell returns exactly when the
  report is well shaped, and then records the three metrics; otherwise it raises IndexError or
  ValueError, having recorded the metrics that precede the first field that is missing or
  does not parse: none, precision, or precision and recall.
\<close>

theorem record_metrics_records_leading_fields:
  assumes glue: "\<forall>name v. glue E name v = Inr ()"
    and run: "record_metrics E rep s = (r, s')"
  shows "\<exists>evs. calls s' = calls s @ evs \<and> glued evs = parsed_metrics E rep \<and>
           (well_shaped E rep \<longrightarrow> r = Inr () \<and> length (glued evs) = 3) \<and>
           (\<not> well_shaped E rep \<longrightarrow>
              (r = Inl IndexError \<or> r = Inl ValueError) \<and> length (glued evs) < 3)"
proof (cases "report_fields rep")
  case None
  then have "length (str_split_sep rep CHR 0x0A) < 2"
    by (simp add: report_fields_def Let_def split: if_splits)
  with run have "r = Inl IndexError" "s' = s"
    by (simp_all add: record_metrics_def seq_def lift_def getitem_line)
  with None show ?thesis
    by (simp add: parsed_metrics_def well_shaped_def)
next
  case (Some cols)
  then have len: "\<not> length (str_split_sep rep CHR 0x0A) < 2"
    and cols_eq: "cols = str_split (str_split_sep rep CHR 0x0A ! (length (str_split_sep rep CHR 0x0A) - 2))"
    by (simp_all add: report_fields_def Let_def split: if_splits)
  from run len cols_eq glue
  have run': "seq (lift (getitem cols 2)) (\<lambda>field2.
     seq (lift (to_float E field2)) (\<lambda>precision.
     seq (call (Call_glue ''precision'' precision) (Inr ())) (\<lambda>_.
     seq (lift (getitem cols 3)) (\<lambda>field3.
     seq (lift (to_float E field3)) (\<lambda>recall.
     seq (call (Call_glue ''recall'' recall) (Inr ())) (\<lambda>_.
     seq (lift (getitem cols 4)) (\<lambda>field4.
     seq (lift (to_float E field4)) (\<lambda>f1.
     call (Call_glue ''f1'' f1) (Inr ()))))))))) s = (r, s')"
    by (simp add: record_metrics_def getitem_line Let_def seq_def lift_def)
  show ?thesis
    using run' Some
    by (auto simp: seq_def lift_def call_def log_def getitem_numeral to_float_def
          parsed_metrics_def well_shaped_def metric_fields_def
          split: if_splits option.splits)
qed

theorem record_metrics_records_leading_fields_witness:
  "(\<forall>name v. glue demo_env name v = Inr ()) \<and> well_shaped demo_env demo_report \<and>
   fst (record_metrics demo_env demo_report start) = Inr () \<and>
   glued (calls (snd (record_metrics demo_env demo_report start))) =
     [(''precision'', ''0.78''), (''recall'', ''0.82''), (''f1'', ''0.80'')]"
proof -
  have r: "record_metrics demo_env demo_report start =
      (fst (record_metrics demo_env demo_report start),
       snd (record_metrics demo_env demo_report start))"
    by simp
  have w: "well_shaped demo_env demo_report"
    by (simp add: well_shaped_def demo_report_fields)
  have p: "parsed_metrics demo_env demo_report =
      [(''precision'', ''0.78''), (''recall'', ''0.82''), (''f1'', ''0.80'')]"
    by (simp add: parsed_metrics_def demo_report_fields metric_fields_def)
  from record_metrics_records_leading_fields [OF demo_glue r] w p demo_glue
  show ?thesis by (auto simp: start_def)
qed

section \<open>C7: the sub-sampling keeps sentences and labels paired\<close>




section \<open>C8: the data preparation does not depend on the state of the generator\<close>

lemma configure_Inr:
  assumes "configure E q s = (Inr c, s')"
  shows "TEST_DATA_FRACTION c = Decimal 3 1 \<and>
         SAMPLE_RATIO c = (if q then Decimal 1 1 else Integer 1) \<and>
         RANDOM_SEED c = 100 \<and> NUM_TRAIN_EPOCHS c = (if q then 1 else 5) \<and>
         MODEL_NAME c = ''bert-base-cased'' \<and> DO_LOWER_CASE c = False \<and>
         MAX_SEQ_LENGTH c = 200 \<and> TRAILING_PIECE_TAG c = ''X'' \<and>
         NUM_GPUS c = None \<and> BATCH_SIZE c = 16"
  using assms
  by (auto simp: configure_def seq_def call_def call_w_def ret_def Let_def
           split: prod.splits sum.splits)

lemma sample_and_split_depends:
  assumes "SAMPLE_RATIO c1 = SAMPLE_RATIO c2" "RANDOM_SEED c1 = RANDOM_SEED c2"
    "TEST_DATA_FRACTION c1 = TEST_DATA_FRACTION c2"
  shows "fst (sample_and_split E c1 sl ll u1) = fst (sample_and_split E c2 sl ll u2)"
  using assms
  by (simp add: sample_and_split_def sub_sample_def split_train_test_def seq_def
        py_random_seed_def py_random_sample_def lift_def call_def ret_def log_def Let_def
        split: prod.splits sum.splits)

text \<open>
  C8: take two runs of the configuration cell, from any two states, and the same parsed file.
  Whatever the worlds, the states of the random generator and the temporary directories of
  the two runs, the sub-sampling and the split give the same result: the same sub-sample, the
  same four lists, or the same exception. The seed is set to 100 before the sampling, and the
  split is given 100 as its random state; the libraries are functions of their arguments and of
  the state they are given.
\<close>

theorem data_preparation_deterministic:
  assumes "configure E QUICK_RUN s1 = (Inr c1, t1)" and "configure E QUICK_RUN s2 = (Inr c2, t2)"
  shows "fst (sample_and_split E c1 sl ll u1) = fst (sample_and_split E c2 sl ll u2)"
proof -
  from configure_Inr [OF assms(1)] configure_Inr [OF assms(2)]
  have "SAMPLE_RATIO c1 = SAMPLE_RATIO c2" "RANDOM_SEED c1 = RANDOM_SEED c2"
    "TEST_DATA_FRACTION c1 = TEST_DATA_FRACTION c2"
    by simp_all
  then show ?thesis by (rule sample_and_split_depends)
qed

theorem data_preparation_deterministic_witness:
  "configure demo_env False start =
     (Inr (cfg demo_namespace), snd (configure demo_env False start)) \<and>
   configure demo_env False \<lparr>world = 5, rng = 7, calls = []\<rparr> =
     (Inr ((cfg demo_namespace)\<lparr>DATA_PATH := ''/tmp/b''\<rparr>),
      snd (configure demo_env False \<lparr>world = 5, rng = 7, calls = []\<rparr>)) \<and>
   fst (sample_and_split demo_env (cfg demo_namespace) demo_sentences demo_labels start) =
   fst (sample_and_split demo_env ((cfg demo_namespace)\<lparr>DATA_PATH := ''/tmp/b''\<rparr>)
          demo_sentences demo_labels \<lparr>world = 5, rng = 7, calls = []\<rparr>)"
proof -
  have r1: "configure demo_env False start =
     (Inr (cfg demo_namespace), snd (configure demo_env False start))"
    by (simp add: configure_def seq_def call_def call_w_def ret_def log_def Let_def
          demo_env_def start_def demo_namespace_def)
  have r2: "configure demo_env False \<lparr>world = 5, rng = 7, calls = []\<rparr> =
     (Inr ((cfg demo_namespace)\<lparr>DATA_PATH := ''/tmp/b''\<rparr>),
      snd (configure demo_env False \<lparr>world = 5, rng = 7, calls = []\<rparr>))"
    by (simp add: configure_def seq_def call_def call_w_def ret_def log_def Let_def
          demo_env_def demo_namespace_def)
  from data_preparation_deterministic [OF r1 r2] r1 r2 show ?thesis by blast
qed

section \<open>C6: the one branch of the notebook\<close>




section \<open>C5: what is trained on and what is scored\<close>

lemma get_dataset_Inr:
  assumes "get_dataset E c s = (Inr (sl, ll, trs, tes, trl, tel), s')"
  shows "train_test_split E sl ll (TEST_DATA_FRACTION c) (RANDOM_SEED c) = Inr (trs, tes, trl, tel) \<and>
         length sl = length ll"
  using assms
  by (auto simp: get_dataset_def sample_and_split_def sub_sample_def split_train_test_def
        seq_def call_def ret_def lift_def unzip_pairs_def Let_def
        split: prod.splits sum.splits if_splits)

lemma load_and_preprocess_Inr:
  assumes "load_and_preprocess E c s = (Inr (sl, ll, trs, tes, trl, tel, pr, lm, trd, trdl, ted, tedl), s')"
  shows "train_test_split E sl ll (TEST_DATA_FRACTION c) (RANDOM_SEED c) = Inr (trs, tes, trl, tel) \<and>
         length sl = length ll \<and>
         preprocess E pr trs (MAX_SEQ_LENGTH c) (Some trl) lm (TRAILING_PIECE_TAG c) = Inr trd \<and>
         dataloader_from_dataset E trd (BATCH_SIZE c) (NUM_GPUS c) True False = Inr trdl \<and>
         preprocess E pr tes (MAX_SEQ_LENGTH c) (Some tel) lm (TRAILING_PIECE_TAG c) = Inr ted \<and>
         dataloader_from_dataset E ted (BATCH_SIZE c) (NUM_GPUS c) False False = Inr tedl"
proof -
  from assms obtain s1 s2 where
    1: "get_dataset E c s = (Inr (sl, ll, trs, tes, trl, tel), s1)" and
    2: "create_datasets E c ll trs trl tes tel s2 = (Inr (pr, lm, trd, trdl, ted, tedl), s')"
    unfolding load_and_preprocess_def
    by (auto simp: seq_def ret_def split: prod.splits sum.splits)
  from 2 have "preprocess E pr trs (MAX_SEQ_LENGTH c) (Some trl) lm (TRAILING_PIECE_TAG c) = Inr trd \<and>
         dataloader_from_dataset E trd (BATCH_SIZE c) (NUM_GPUS c) True False = Inr trdl \<and>
         preprocess E pr tes (MAX_SEQ_LENGTH c) (Some tel) lm (TRAILING_PIECE_TAG c) = Inr ted \<and>
         dataloader_from_dataset E ted (BATCH_SIZE c) (NUM_GPUS c) False False = Inr tedl"
    by (auto simp: create_datasets_def seq_def call_def ret_def split: prod.splits sum.splits)
  with get_dataset_Inr [OF 1] show ?thesis by simp
qed

lemma score_test_Inr:
  assumes "score_test E mdl dl s = (Inr (Some p), s')"
  shows "predict E mdl dl None True = Inr p"
  using assms
  by (auto simp: score_test_def with_Timer_def seq_def call_def ret_def lift_def print_def
        split: prod.splits sum.splits if_splits)

lemma evaluate_Inr:
  assumes "evaluate E mdl lm ds p s = (Inr (tls, rep), s')"
  shows "\<exists>pp pl. p = Some pp \<and> get_true_test_labels E mdl lm ds = Inr tls \<and>
           get_predicted_token_labels E mdl pp lm ds = Inr pl \<and>
           classification_report E tls pl 2 = Inr rep"
  using assms
  by (auto simp: evaluate_def seq_def call_def ret_def lift_def print_def lookup_def
        split: prod.splits sum.splits option.splits)

lemma emits_print_examples_predict:
  "emits predict_call (print_examples E txt toks labs idxs) []"
  by (rule emits_print_examples_none) simp_all

lemma score_examples_Inr:
  assumes "score_examples E c pr lm mdl s = (Inr (sdl, p, pl), s')"
  shows "\<exists>sds evs.
           preprocess E pr (map str_split sample_text) (MAX_SEQ_LENGTH c) None lm
             (TRAILING_PIECE_TAG c) = Inr sds \<and>
           dataloader_from_dataset E sds (BATCH_SIZE c) None False False = Inr sdl \<and>
           predict E mdl sdl None True = Inr p \<and>
           calls s' = calls s @ evs \<and> proj predict_call evs = [sdl]"
proof -
  define s4 where "s4 = s\<lparr>calls := calls s @
          [(Call_preprocess (map str_split sample_text) None, Returned),
           (Call_dataloader_from_dataset False, Returned), (Call_predict sdl, Returned),
           (Call_get_predicted_token_labels, Returned)]\<rparr>"
  have s4: "calls s4 = calls s @ [(Call_preprocess (map str_split sample_text) None, Returned),
           (Call_dataloader_from_dataset False, Returned), (Call_predict sdl, Returned),
           (Call_get_predicted_token_labels, Returned)]"
    by (simp add: s4_def)
  from assms obtain sds u where
    eqs: "preprocess E pr (map str_split sample_text) (MAX_SEQ_LENGTH c) None lm
             (TRAILING_PIECE_TAG c) = Inr sds"
      "dataloader_from_dataset E sds (BATCH_SIZE c) None False False = Inr sdl"
      "predict E mdl sdl None True = Inr p"
      "get_predicted_token_labels E mdl p lm sds = Inr pl" and
    pe: "print_examples E sample_text (map str_split sample_text) pl [0..<length sample_text] s4 =
           (Inr u, s')"
    unfolding score_examples_def Let_def s4_def
    by (auto simp: seq_def call_def ret_def log_def split: prod.splits sum.splits)
  from emits_none [OF emits_print_examples_predict pe] obtain evs where
    "calls s' = calls s4 @ evs" "proj predict_call evs = []"
    by blast
  with s4 have "calls s' = calls s @ ([(Call_preprocess (map str_split sample_text) None, Returned),
           (Call_dataloader_from_dataset False, Returned), (Call_predict sdl, Returned),
           (Call_get_predicted_token_labels, Returned)] @ evs) \<and>
      proj predict_call ([(Call_preprocess (map str_split sample_text) None, Returned),
           (Call_dataloader_from_dataset False, Returned), (Call_predict sdl, Returned),
           (Call_get_predicted_token_labels, Returned)] @ evs) = [sdl]"
    by simp
  with eqs show ?thesis by blast
qed

lemma emits_configure_fit: "emits fit_call (configure E q) []"
  unfolding configure_def Let_def
  apply (rule emits_eq)
   apply (rule emits_intros | simp)+
  done

lemma emits_load_fit: "emits fit_call (load_and_preprocess E c) []"
  unfolding cell_defs Let_def
  apply (rule emits_eq)
   apply (rule emits_intros | simp)+
  done

lemma emits_train_fit: "emits fit_call (train_model E c lm dl) [dl]"
  unfolding cell_defs Let_def
  apply (rule emits_eq)
   apply (rule emits_intros emits_with_Timer_call | simp)+
  done

lemma emits_score_test_fit: "emits fit_call (score_test E mdl dl) []"
  unfolding cell_defs Let_def
  apply (rule emits_eq)
   apply (rule emits_intros emits_with_Timer_call | simp)+
  done

lemma emits_evaluate_fit: "emits fit_call (evaluate E mdl lm ds p) []"
  unfolding cell_defs Let_def
  apply (rule emits_eq)
   apply (rule emits_intros | simp)+
  done

lemma emits_score_examples_fit: "emits fit_call (score_examples E c pr lm mdl) []"
  unfolding cell_defs Let_def
  apply (rule emits_eq)
   apply (rule emits_intros emits_print_examples_none | simp)+
  done

lemma emits_record_metrics_fit: "emits fit_call (record_metrics E rep) []"
  unfolding cell_defs Let_def
  apply (rule emits_eq)
   apply (rule emits_intros | simp)+
  done

lemma emits_configure_predict: "emits predict_call (configure E q) []"
  unfolding configure_def Let_def
  apply (rule emits_eq)
   apply (rule emits_intros | simp)+
  done

lemma emits_load_predict: "emits predict_call (load_and_preprocess E c) []"
  unfolding cell_defs Let_def
  apply (rule emits_eq)
   apply (rule emits_intros | simp)+
  done

lemma emits_train_predict: "emits predict_call (train_model E c lm dl) []"
  unfolding cell_defs Let_def
  apply (rule emits_eq)
   apply (rule emits_intros emits_with_Timer_call | simp)+
  done

lemma emits_score_test_predict: "emits predict_call (score_test E mdl dl) [dl]"
  unfolding cell_defs Let_def
  apply (rule emits_eq)
   apply (rule emits_intros emits_with_Timer_call | simp)+
  done

lemma emits_evaluate_predict: "emits predict_call (evaluate E mdl lm ds p) []"
  unfolding cell_defs Let_def
  apply (rule emits_eq)
   apply (rule emits_intros | simp)+
  done

lemma emits_record_metrics_predict: "emits predict_call (record_metrics E rep) []"
  unfolding cell_defs Let_def
  apply (rule emits_eq)
   apply (rule emits_intros | simp)+
  done

lemma emits_all:
  assumes "emits p m xs" and "m s = (Inr a, s')"
  shows "\<exists>evs. calls s' = calls s @ evs \<and> proj p evs = xs"
  using emitsD [OF assms] by auto

lemma take_as_map_nth: "k \<le> length xs \<Longrightarrow> take k xs = map (nth xs) [0..<k]"
  by (simp add: list_eq_iff_nth_eq)

lemma drop_as_map_nth: "drop k xs = map (nth xs) [k..<length xs]"
  by (simp add: list_eq_iff_nth_eq)

lemma demo_splits_by_position: "splits_by_position demo_env"
  unfolding splits_by_position_def
proof (intro allI impI)
  fix xs ys :: sentences and frac seed a b c d
  assume len: "length xs = length ys"
    and split: "train_test_split demo_env xs ys frac seed = Inr (a, b, c, d)"
  define k where "k = (3 * length xs + 9) div 10"
  from split have k: "k < length xs"
    and parts: "a = drop k xs" "b = take k xs" "c = drop k ys" "d = take k ys"
    by (auto simp: demo_env_def Let_def k_def split: if_splits)
  have "distinct ([k..<length xs] @ [0..<k]) \<and>
        set ([k..<length xs] @ [0..<k]) \<subseteq> {..<length xs} \<and>
        a = map (nth xs) [k..<length xs] \<and> b = map (nth xs) [0..<k] \<and>
        c = map (nth ys) [k..<length xs] \<and> d = map (nth ys) [0..<k]"
    using k parts len by (auto simp: take_as_map_nth drop_as_map_nth)
  then show "\<exists>train test.
      distinct (train @ test) \<and> set (train @ test) \<subseteq> {..<length xs} \<and>
      a = map (nth xs) train \<and> b = map (nth xs) test \<and>
      c = map (nth ys) train \<and> d = map (nth ys) test"
    by blast
qed

text \<open>
  C5, as stated: predict is computed only on the test split. It fails on the complete run on
  the stub library: predict is called twice, on the loader of the test split and on the loader
  made from the two example sentences.
\<close>

theorem predict_on_examples_counterexample:
  "fst (notebook demo_env False start) = Inr demo_namespace \<and>
   test_dataloader demo_namespace = demo_test \<and>
   proj predict_call (calls (snd (notebook demo_env False start))) =
     [demo_test, (map str_split sample_text, None)] \<and>
   (map str_split sample_text, None) \<noteq> demo_test"
  by (simp add: demo_run demo_calls_def demo_namespace_def demo_sample_def demo_test_def)

text \<open>
  C5, amended: in a run that completes, the four lists come from one call of
  \<^verbatim>\<open>train_test_split\<close> on the sub-sampled lists with test size 0.3 and random state 100; the
  training loader is made from the training lists and the test loader from the test lists;
  \<open>fit\<close> is called once, on the training loader; the report is computed from the true labels
  of the test dataset and the labels predicted on the test loader; \<open>predict\<close> is called a
  second time, on the loader made from the two example sentences, whose predictions are
  printed and not scored. Where \<^verbatim>\<open>train_test_split\<close> splits by position, the training and the
  test lists hold the elements at two disjoint lists of positions of the sub-sample.
\<close>

theorem scored_split_is_the_test_split:
  assumes "notebook E QUICK_RUN s0 = (Inr ns, s)" and "calls s0 = []"
  shows "train_test_split E (sentence_list ns) (labels_list ns) (Decimal 3 1) 100 =
           Inr (train_sentence_list ns, test_sentence_list ns,
                train_labels_list ns, test_labels_list ns) \<and>
         preprocess E (processor ns) (train_sentence_list ns) 200 (Some (train_labels_list ns))
           (label_map ns) ''X'' = Inr (train_dataset ns) \<and>
         dataloader_from_dataset E (train_dataset ns) 16 None True False =
           Inr (train_dataloader ns) \<and>
         preprocess E (processor ns) (test_sentence_list ns) 200 (Some (test_labels_list ns))
           (label_map ns) ''X'' = Inr (test_dataset ns) \<and>
         dataloader_from_dataset E (test_dataset ns) 16 None False False =
           Inr (test_dataloader ns) \<and>
         proj fit_call (calls s) = [train_dataloader ns] \<and>
         proj predict_call (calls s) = [test_dataloader ns, sample_dataloader ns] \<and>
         (\<exists>test_preds predicted.
            predict E (model ns) (test_dataloader ns) None True = Inr test_preds \<and>
            get_true_test_labels E (model ns) (label_map ns) (test_dataset ns) =
              Inr (true_labels ns) \<and>
            get_predicted_token_labels E (model ns) test_preds (label_map ns) (test_dataset ns) =
              Inr predicted \<and>
            classification_report E (true_labels ns) predicted 2 = Inr (report ns)) \<and>
         (\<exists>sample_dataset.
            preprocess E (processor ns) (map str_split sample_text) 200 None (label_map ns) ''X'' =
              Inr sample_dataset \<and>
            dataloader_from_dataset E sample_dataset 16 None False False =
              Inr (sample_dataloader ns)) \<and>
         (splits_by_position E \<longrightarrow>
            (\<exists>train test.
               distinct (train @ test) \<and> set (train @ test) \<subseteq> {..<length (sentence_list ns)} \<and>
               train_sentence_list ns = map (nth (sentence_list ns)) train \<and>
               test_sentence_list ns = map (nth (sentence_list ns)) test \<and>
               train_labels_list ns = map (nth (labels_list ns)) train \<and>
               test_labels_list ns = map (nth (labels_list ns)) test))"
proof -
  from notebook_Inr [OF assms(1)] obtain c s1 s2 s3 s4 s5 s6 test_preds where
    run: "configure E QUICK_RUN s0 = (Inr c, s1)"
      "load_and_preprocess E c s1 =
        (Inr (sentence_list ns, labels_list ns, train_sentence_list ns, test_sentence_list ns,
              train_labels_list ns, test_labels_list ns, processor ns, label_map ns,
              train_dataset ns, train_dataloader ns, test_dataset ns, test_dataloader ns), s2)"
      "train_model E c (label_map ns) (train_dataloader ns) s2 = (Inr (model ns), s3)"
      "score_test E (model ns) (test_dataloader ns) s3 = (Inr test_preds, s4)"
      "evaluate E (model ns) (label_map ns) (test_dataset ns) test_preds s4 =
        (Inr (true_labels ns, report ns), s5)"
      "score_examples E c (processor ns) (label_map ns) (model ns) s5 =
        (Inr (sample_dataloader ns, preds ns, predicted_labels ns), s6)"
      "record_metrics E (report ns) s6 = (Inr (), s)"
    by blast
  note c = configure_Inr [OF run(1)]
  note load = load_and_preprocess_Inr [OF run(2)]
  from c load have split:
    "train_test_split E (sentence_list ns) (labels_list ns) (Decimal 3 1) 100 =
       Inr (train_sentence_list ns, test_sentence_list ns,
            train_labels_list ns, test_labels_list ns)"
    and len: "length (sentence_list ns) = length (labels_list ns)"
    and wrap: "preprocess E (processor ns) (train_sentence_list ns) 200
        (Some (train_labels_list ns)) (label_map ns) ''X'' = Inr (train_dataset ns)"
      "dataloader_from_dataset E (train_dataset ns) 16 None True False =
         Inr (train_dataloader ns)"
      "preprocess E (processor ns) (test_sentence_list ns) 200 (Some (test_labels_list ns))
         (label_map ns) ''X'' = Inr (test_dataset ns)"
      "dataloader_from_dataset E (test_dataset ns) 16 None False False =
         Inr (test_dataloader ns)"
    by simp_all
  from evaluate_Inr [OF run(5)] obtain pp predicted where
    ev: "test_preds = Some pp"
      "get_true_test_labels E (model ns) (label_map ns) (test_dataset ns) = Inr (true_labels ns)"
      "get_predicted_token_labels E (model ns) pp (label_map ns) (test_dataset ns) = Inr predicted"
      "classification_report E (true_labels ns) predicted 2 = Inr (report ns)"
    by blast
  from run(4) ev(1) have pr: "predict E (model ns) (test_dataloader ns) None True = Inr pp"
    by (auto dest: score_test_Inr)
  from score_examples_Inr [OF run(6)] c obtain sds evs6 where
    ex: "preprocess E (processor ns) (map str_split sample_text) 200 None (label_map ns) ''X'' =
           Inr sds"
      "dataloader_from_dataset E sds 16 None False False = Inr (sample_dataloader ns)"
      "calls s6 = calls s5 @ evs6" "proj predict_call evs6 = [sample_dataloader ns]"
    by auto
  from emits_all [OF emits_configure_fit run(1)] emits_all [OF emits_load_fit run(2)]
    emits_all [OF emits_train_fit run(3)] emits_all [OF emits_score_test_fit run(4)]
    emits_all [OF emits_evaluate_fit run(5)] emits_all [OF emits_score_examples_fit run(6)]
    emits_all [OF emits_record_metrics_fit run(7)] assms(2)
  have fits: "proj fit_call (calls s) = [train_dataloader ns]"
    by auto
  from emits_all [OF emits_configure_predict run(1)] emits_all [OF emits_load_predict run(2)]
    emits_all [OF emits_train_predict run(3)] emits_all [OF emits_score_test_predict run(4)]
    emits_all [OF emits_evaluate_predict run(5)] ex(3,4)
    emits_all [OF emits_record_metrics_predict run(7)] assms(2)
  have predicts: "proj predict_call (calls s) = [test_dataloader ns, sample_dataloader ns]"
    by auto
  have held_out: "\<exists>train test.
      distinct (train @ test) \<and> set (train @ test) \<subseteq> {..<length (sentence_list ns)} \<and>
      train_sentence_list ns = map (nth (sentence_list ns)) train \<and>
      test_sentence_list ns = map (nth (sentence_list ns)) test \<and>
      train_labels_list ns = map (nth (labels_list ns)) train \<and>
      test_labels_list ns = map (nth (labels_list ns)) test"
    if "splits_by_position E"
    using that len split unfolding splits_by_position_def by blast
  from split wrap fits predicts pr ev(2-4) ex(1,2) held_out show ?thesis
    by blast
qed

theorem scored_split_is_the_test_split_witness:
  "notebook demo_env False start = (Inr demo_namespace, snd (notebook demo_env False start)) \<and>
   calls start = [] \<and> splits_by_position demo_env \<and>
   proj fit_call (calls (snd (notebook demo_env False start))) = [demo_train] \<and>
   proj predict_call (calls (snd (notebook demo_env False start))) = [demo_test, demo_sample]"
proof -
  have r: "notebook demo_env False start =
             (Inr demo_namespace, snd (notebook demo_env False start))"
    by (simp add: demo_run)
  have c: "calls start = []" by (simp add: start_def)
  note facts = scored_split_is_the_test_split [OF r c]
  from facts have "proj fit_call (calls (snd (notebook demo_env False start))) =
      [train_dataloader demo_namespace]"
    by blast
  moreover from facts have "proj predict_call (calls (snd (notebook demo_env False start))) =
      [test_dataloader demo_namespace, sample_dataloader demo_namespace]"
    by blast
  ultimately show ?thesis
    using r c demo_splits_by_position by (simp add: demo_namespace_def)
qed

end
